theory Spec2Isabelle
  imports Complex_Main "HOL-Library.Word"
begin

section \<open>JavaScript values\<close>

text \<open>
  The adapters read fields of untyped data (\<^verbatim>\<open>any\<close>): webhook payloads, the JSON body of a
  remote response, the configuration record. Such data is a value of \<open>jsval\<close>. An object is
  the list of its properties; a lookup takes the first entry of a name. JSON numbers are reals.
\<close>

datatype jsval =
    JUndefined
  | JNull
  | JBool bool
  | JNum real
  | JStr string
  | JArr "jsval list"
  | JObj "(string \<times> jsval) list"

text \<open>
  What a \<^verbatim>\<open>throw\<close> carries to a \<^verbatim>\<open>catch\<close>: an \<^verbatim>\<open>Error\<close> object (any subclass) with
  its message, or some other value.
\<close>

datatype thrown = ErrorObj string | NonError jsval

text \<open>
  What makes the engine throw a \<^verbatim>\<open>TypeError\<close> in this code: reading a property of
  \<^verbatim>\<open>undefined\<close> or \<^verbatim>\<open>null\<close>, calling a method the value does not have, and converting
  to a primitive an object that cannot be converted.
\<close>

datatype js_fault =
    ReadProperty jsval string
  | NotAFunction jsval string
  | CannotConvert jsval

text \<open>
  What the code leaves to the JavaScript engine and the model does not spell out: the
  message the engine gives a \<^verbatim>\<open>TypeError\<close>; \<^verbatim>\<open>a >= b\<close> on operands that are not both
  numbers, after their conversion; \<^verbatim>\<open>ToNumber\<close> of a value that is not a number (\<open>None\<close>
  is \<^verbatim>\<open>NaN\<close>); and \<^verbatim>\<open>JSON.parse\<close>, which throws on text that is not JSON. Every
  function below that uses one of these takes the engine \<open>rt\<close> as its first argument.
\<close>

record engine =
  type_error_text :: "js_fault \<Rightarrow> string"
  coerced_ge :: "jsval \<Rightarrow> jsval \<Rightarrow> bool"
  to_number :: "jsval \<Rightarrow> real option"
  json_parse :: "string \<Rightarrow> thrown + jsval"

definition type_error :: "engine \<Rightarrow> js_fault \<Rightarrow> thrown" where
  "type_error rt fault = ErrorObj (type_error_text rt fault)"

text \<open>Truthiness, as \<^verbatim>\<open>!x\<close>, \<^verbatim>\<open>||\<close> and \<^verbatim>\<open>if (x)\<close> test it.\<close>

fun truthy :: "jsval \<Rightarrow> bool" where
  "truthy JUndefined = False"
| "truthy JNull = False"
| "truthy (JBool b) = b"
| "truthy (JNum x) = (x \<noteq> 0)"
| "truthy (JStr s) = (s \<noteq> [])"
| "truthy (JArr xs) = True"
| "truthy (JObj kvs) = True"

text \<open>\<^verbatim>\<open>a || b\<close>\<close>

definition js_or :: "jsval \<Rightarrow> jsval \<Rightarrow> jsval" where
  "js_or a b = (if truthy a then a else b)"

definition nullish :: "jsval \<Rightarrow> bool" where
  "nullish v = (v = JUndefined \<or> v = JNull)"

text \<open>
  \<^verbatim>\<open>v.k\<close> and \<^verbatim>\<open>v[0]\<close> (the key \<open>''0''\<close>) on a value that is neither \<^verbatim>\<open>undefined\<close> nor
  \<^verbatim>\<open>null\<close>. The names the adapters read are defined by no built-in prototype, so on a
  number, a boolean, a string or an array they give \<^verbatim>\<open>undefined\<close>; index 0 of an array
  or of a string is its first element.
\<close>

fun js_prop :: "jsval \<Rightarrow> string \<Rightarrow> jsval" where
  "js_prop (JObj kvs) k = (case map_of kvs k of Some v \<Rightarrow> v | None \<Rightarrow> JUndefined)"
| "js_prop (JArr xs) k =
     (if k = ''0'' then (case xs of [] \<Rightarrow> JUndefined | x # _ \<Rightarrow> x) else JUndefined)"
| "js_prop (JStr s) k =
     (if k = ''0'' then (case s of [] \<Rightarrow> JUndefined | c # _ \<Rightarrow> JStr [c]) else JUndefined)"
| "js_prop v k = JUndefined"

text \<open>\<^verbatim>\<open>v.k\<close>: reading a property of \<^verbatim>\<open>undefined\<close> or \<^verbatim>\<open>null\<close> throws.\<close>

definition get_prop :: "engine \<Rightarrow> jsval \<Rightarrow> string \<Rightarrow> thrown + jsval" where
  "get_prop rt v k =
     (if nullish v then Inl (type_error rt (ReadProperty v k)) else Inr (js_prop v k))"

text \<open>\<^verbatim>\<open>v?.k\<close>\<close>

definition opt_prop :: "jsval \<Rightarrow> string \<Rightarrow> jsval" where
  "opt_prop v k = (if nullish v then JUndefined else js_prop v k)"

text \<open>
  The values whose conversion to a primitive throws. An object is converted by its
  \<^verbatim>\<open>valueOf\<close> and \<^verbatim>\<open>toString\<close> methods; a property of its own named \<open>toString\<close> hides
  the inherited method and, being data, cannot be called, and \<^verbatim>\<open>valueOf\<close> (its own or the
  inherited one) gives no primitive. An array is converted by joining the conversions of
  its elements.
\<close>

fun unconvertible :: "jsval \<Rightarrow> bool" where
  "unconvertible (JObj kvs) = (''toString'' \<in> fst ` set kvs)"
| "unconvertible (JArr xs) = (\<exists>x \<in> set xs. unconvertible x)"
| "unconvertible v = False"

text \<open>
  \<^verbatim>\<open>a >= b\<close>. On two numbers it is the order of the numbers. Otherwise both operands are
  converted, the left one first, which throws on a value that cannot be converted; the
  comparison of the converted operands is the engine's.
\<close>

definition js_ge :: "engine \<Rightarrow> jsval \<Rightarrow> jsval \<Rightarrow> thrown + bool" where
  "js_ge rt a b =
     (case (a, b) of
        (JNum x, JNum y) \<Rightarrow> Inr (y \<le> x)
      | _ \<Rightarrow>
          if unconvertible a then Inl (type_error rt (CannotConvert a))
          else if unconvertible b then Inl (type_error rt (CannotConvert b))
          else Inr (coerced_ge rt a b))"

text \<open>\<^verbatim>\<open>ToNumber\<close> as an arithmetic operator applies it; \<open>None\<close> is \<^verbatim>\<open>NaN\<close>.\<close>

definition js_to_number :: "engine \<Rightarrow> jsval \<Rightarrow> thrown + real option" where
  "js_to_number rt v =
     (case v of
        JNum x \<Rightarrow> Inr (Some x)
      | _ \<Rightarrow>
          if unconvertible v then Inl (type_error rt (CannotConvert v))
          else Inr (to_number rt v))"

text \<open>\<^verbatim>\<open>a - b\<close>\<close>

definition js_minus :: "engine \<Rightarrow> jsval \<Rightarrow> jsval \<Rightarrow> thrown + real option" where
  "js_minus rt a b =
     (case js_to_number rt a of
        Inl e \<Rightarrow> Inl e
      | Inr x \<Rightarrow>
          (case js_to_number rt b of
             Inl e \<Rightarrow> Inl e
           | Inr y \<Rightarrow>
               Inr (case (x, y) of (Some p, Some q) \<Rightarrow> Some (p - q) | _ \<Rightarrow> None)))"

subsection \<open>Strings\<close>

definition lower_char :: "char \<Rightarrow> char" where
  "lower_char c =
     (case map_of (zip ''ABCDEFGHIJKLMNOPQRSTUVWXYZ'' ''abcdefghijklmnopqrstuvwxyz'') c of
        Some d \<Rightarrow> d
      | None \<Rightarrow> c)"

definition toLowerCase :: "string \<Rightarrow> string" where
  "toLowerCase s = map lower_char s"

text \<open>
  \<^verbatim>\<open>v.toLowerCase()\<close>: only a string has the method; on \<^verbatim>\<open>undefined\<close> and \<^verbatim>\<open>null\<close>
  already the read of the method throws.
\<close>

definition js_toLowerCase :: "engine \<Rightarrow> jsval \<Rightarrow> thrown + string" where
  "js_toLowerCase rt v =
     (case v of
        JStr s \<Rightarrow> Inr (toLowerCase s)
      | _ \<Rightarrow>
          if nullish v then Inl (type_error rt (ReadProperty v ''toLowerCase''))
          else Inl (type_error rt (NotAFunction v ''toLowerCase'')))"

fun starts_with :: "string \<Rightarrow> string \<Rightarrow> bool" where
  "starts_with s [] = True"
| "starts_with [] (c # cs) = False"
| "starts_with (d # ds) (c # cs) = (d = c \<and> starts_with ds cs)"

text \<open>\<^verbatim>\<open>s.includes(sub)\<close>\<close>

fun str_includes :: "string \<Rightarrow> string \<Rightarrow> bool" where
  "str_includes [] sub = (sub = [])"
| "str_includes (c # cs) sub = (starts_with (c # cs) sub \<or> str_includes cs sub)"

definition digit_char :: "nat \<Rightarrow> char" where
  "digit_char d = ''0123456789'' ! d"

text \<open>A natural number in a template string.\<close>

fun show_nat :: "nat \<Rightarrow> string" where
  "show_nat n = (if n < 10 then [digit_char n] else show_nat (n div 10) @ [digit_char (n mod 10)])"

declare show_nat.simps [simp del]

section \<open>Detection results\<close>

text \<open>
  \<^verbatim>\<open>AmdDetectionResult\<close> of amd-strategies.ts. In the audio adapters \<^verbatim>\<open>detectionTimeMs\<close>
  is the difference of two readings of the clock, two numbers: it cannot throw and decides
  nothing, and their results are modelled without it. The event adapters subtract a start
  time that they take from the payload, which can throw; their results carry the field
  (\<open>None\<close> is \<^verbatim>\<open>NaN\<close>).
\<close>

datatype amd_result = Human | Machine | Voicemail | Fax | Unknown | Undecided

record amd_detection_result =
  result :: amd_result
  confidence :: jsval
  metadata :: "(string \<times> jsval) list"

record event_detection_result = amd_detection_result +
  detectionTimeMs :: "real option"

type_synonym buffer = "8 word list"

section \<open>Event-driven adapters\<close>

subsection \<open>Twilio native\<close>

text \<open>\<^verbatim>\<open>TwilioNativeStrategy.processAudio\<close>\<close>

definition twilio_processAudio :: "buffer \<Rightarrow> thrown + amd_detection_result" where
  "twilio_processAudio audioBuffer =
     Inl (ErrorObj ''Twilio Native AMD processes via webhooks, not direct audio processing'')"

text \<open>
  \<^verbatim>\<open>TwilioNativeStrategy.parseWebhookResult\<close>. The \<^verbatim>\<open>switch\<close> compares with \<^verbatim>\<open>===\<close>;
  the case \<^verbatim>\<open>'unknown'\<close> shares the \<^verbatim>\<open>default\<close> branch. \<open>now0\<close> and \<open>now1\<close> are the
  readings of \<^verbatim>\<open>Date.now()\<close>: the first where \<^verbatim>\<open>startTime\<close> is set (read only when the
  payload has no truthy \<open>timestamp\<close>), the second in the returned object, where the
  subtraction converts \<^verbatim>\<open>startTime\<close> to a number.
\<close>

definition twilio_parseWebhookResult ::
  "engine \<Rightarrow> real \<Rightarrow> real \<Rightarrow> jsval \<Rightarrow> thrown + event_detection_result"
where
  "twilio_parseWebhookResult rt now0 now1 webhookData =
     (if nullish webhookData then Inl (type_error rt (ReadProperty webhookData ''timestamp''))
      else
        let startTime = js_or (js_prop webhookData ''timestamp'') (JNum now0);
            amdStatus = js_or (js_prop webhookData ''AnsweredBy'')
                              (js_prop webhookData ''AnsweringMachineDetection'');
            (res, conf) =
              (if amdStatus = JStr ''human'' then (Human, 0.8)
               else if amdStatus = JStr ''machine_start'' \<or> amdStatus = JStr ''machine_end_beep''
                     \<or> amdStatus = JStr ''machine_end_silence''
                     \<or> amdStatus = JStr ''machine_end_other'' then (Machine, 0.85)
               else if amdStatus = JStr ''fax'' then (Fax, 0.9)
               else (Undecided, 0.5))
        in case js_minus rt (JNum now1) startTime of
             Inl e \<Rightarrow> Inl e
           | Inr elapsed \<Rightarrow>
               Inr \<lparr>result = res, confidence = JNum conf,
                     metadata = [(''twilioStatus'', amdStatus),
                                 (''callDuration'', js_prop webhookData ''CallDuration'')],
                     detectionTimeMs = elapsed\<rparr>)"

subsection \<open>Jambonz\<close>

text \<open>\<^verbatim>\<open>JambonzStrategy.processAudio\<close>\<close>

definition jambonz_processAudio :: "buffer \<Rightarrow> thrown + amd_detection_result" where
  "jambonz_processAudio audioBuffer =
     Inl (ErrorObj ''Jambonz AMD processes via SIP webhooks, not direct audio processing'')"

text \<open>
  \<^verbatim>\<open>JambonzStrategy.parseWebhookEvent\<close>. \<^verbatim>\<open>confidence\<close> starts at 0.75 and the
  \<^verbatim>\<open>default\<close> branch leaves it there. \<open>now0\<close> and \<open>now1\<close> are as for Twilio.
\<close>

definition jambonz_parseWebhookEvent ::
  "engine \<Rightarrow> real \<Rightarrow> real \<Rightarrow> jsval \<Rightarrow> thrown + event_detection_result"
where
  "jambonz_parseWebhookEvent rt now0 now1 eventData =
     (if nullish eventData then Inl (type_error rt (ReadProperty eventData ''timestamp''))
      else
        let startTime = js_or (js_prop eventData ''timestamp'') (JNum now0);
            event = js_prop eventData ''event'';
            (res, conf) =
              (if event = JStr ''amd_human_detected'' then (Human, 0.85)
               else if event = JStr ''amd_machine_detected'' then (Machine, 0.88)
               else if event = JStr ''amd_decision_timeout'' then (Undecided, 0.5)
               else if event = JStr ''amd_tone_detected'' then (Fax, 0.9)
               else (Unknown, 0.75))
        in case js_minus rt (JNum now1) startTime of
             Inl e \<Rightarrow> Inl e
           | Inr elapsed \<Rightarrow>
               Inr \<lparr>result = res, confidence = JNum conf,
                     metadata = [(''jambonzEvent'', event),
                                 (''wordCount'', js_prop eventData ''wordCount''),
                                 (''speechDuration'', js_prop eventData ''speechDurationMs'')],
                     detectionTimeMs = elapsed\<rparr>)"

section \<open>Remote calls\<close>

text \<open>
  The adapters reach their remote service through \<^verbatim>\<open>fetch\<close>. The model takes what the
  call yields as an input: \<^verbatim>\<open>await fetch(...)\<close> either throws (no connection, or the abort
  of \<^verbatim>\<open>AbortSignal.timeout\<close>) or gives a response, whose \<^verbatim>\<open>text()\<close> and \<^verbatim>\<open>json()\<close> in
  turn give a value or throw (a body that is not JSON). The request is built inside the
  same \<^verbatim>\<open>try\<close> block (the URL from the fields of the instance, the body from the audio
  buffer); a throw while building it counts as a throw of the call.
\<close>

record http_response =
  ok :: bool
  status :: nat
  statusText :: string
  text_body :: "thrown + string"
  json_body :: "thrown + jsval"

datatype fetch_outcome = FetchThrows thrown | FetchResponse http_response

text \<open>\<^verbatim>\<open>error instanceof Error ? error.message : 'Unknown error'\<close>\<close>

fun error_message :: "thrown \<Rightarrow> string" where
  "error_message (ErrorObj msg) = msg"
| "error_message (NonError v) = ''Unknown error''"

text \<open>
  The value both \<^verbatim>\<open>catch\<close> blocks of \<^verbatim>\<open>processAudio\<close> return, for a given error text.
\<close>

abbreviation failure_result :: "string \<Rightarrow> amd_detection_result" where
  "failure_result msg \<equiv>
     \<lparr>result = Unknown, confidence = JNum 0, metadata = [(''error'', JStr msg)]\<rparr>"

section \<open>Hugging Face adapter\<close>

record hf_state =
  serviceUrl :: jsval
  confidenceThreshold :: jsval

text \<open>The field initialisers of \<^verbatim>\<open>HuggingFaceStrategy\<close>.\<close>

definition new_HuggingFaceStrategy :: hf_state where
  "new_HuggingFaceStrategy = \<lparr>serviceUrl = JUndefined, confidenceThreshold = JNum 0.7\<rparr>"

text \<open>The \<^verbatim>\<open>try\<close> block of \<^verbatim>\<open>HuggingFaceStrategy.processAudio\<close>; \<open>Inl\<close> is a throw.\<close>

definition hf_try ::
  "engine \<Rightarrow> hf_state \<Rightarrow> buffer \<Rightarrow> fetch_outcome \<Rightarrow> thrown + amd_detection_result"
where
  "hf_try rt this audioBuffer fetched =
     (case fetched of
        FetchThrows e \<Rightarrow> Inl e
      | FetchResponse response \<Rightarrow>
          if \<not> ok response
          then Inl (ErrorObj (''HuggingFace service error: '' @ statusText response))
          else
            (case json_body response of
               Inl e \<Rightarrow> Inl e
             | Inr data \<Rightarrow>
                 (case get_prop rt data ''label'' of
                    Inl e \<Rightarrow> Inl e
                  | Inr rawLabel \<Rightarrow>
                      (case js_toLowerCase rt rawLabel of
                         Inl e \<Rightarrow> Inl e
                       | Inr label \<Rightarrow>
                           let conf = js_or (js_or (js_prop data ''confidence'')
                                                   (js_prop data ''score''))
                                            (JNum 0.0);
                               res =
                                 (if str_includes label ''voicemail'' \<or> str_includes label ''machine''
                                  then (case js_ge rt conf (confidenceThreshold this) of
                                          Inl e \<Rightarrow> Inl e
                                        | Inr reached \<Rightarrow> Inr (if reached then Machine else Undecided))
                                  else if str_includes label ''human'' \<or> str_includes label ''person''
                                  then (case js_ge rt conf (confidenceThreshold this) of
                                          Inl e \<Rightarrow> Inl e
                                        | Inr reached \<Rightarrow> Inr (if reached then Human else Undecided))
                                  else Inr Undecided)
                           in case res of
                                Inl e \<Rightarrow> Inl e
                              | Inr r \<Rightarrow>
                                  Inr \<lparr>result = r, confidence = conf,
                                        metadata =
                                          [(''modelLabel'', rawLabel),
                                           (''rawScore'', js_prop data ''confidence''),
                                           (''processingTime'', js_prop data ''processingTime'')]\<rparr>))))"

text \<open>\<^verbatim>\<open>HuggingFaceStrategy.processAudio\<close>: the \<^verbatim>\<open>try\<close> block and its \<^verbatim>\<open>catch\<close>.\<close>

definition hf_processAudio ::
  "engine \<Rightarrow> hf_state \<Rightarrow> buffer \<Rightarrow> fetch_outcome \<Rightarrow> amd_detection_result"
where
  "hf_processAudio rt this audioBuffer fetched =
     (case hf_try rt this audioBuffer fetched of
        Inr r \<Rightarrow> r
      | Inl error \<Rightarrow>
          \<lparr>result = Unknown, confidence = JNum 0,
           metadata = [(''error'', JStr (error_message error))]\<rparr>)"

section \<open>Gemini adapter\<close>

record gemini_state =
  apiKey :: jsval
  model :: jsval

text \<open>The field initialisers of \<^verbatim>\<open>GeminiStrategy\<close>.\<close>

definition new_GeminiStrategy :: gemini_state where
  "new_GeminiStrategy = \<lparr>apiKey = JUndefined, model = JStr ''gemini-2.5-flash''\<rparr>"

text \<open>
  The match of \<^verbatim>\<open>/\{[\s\S]*\}/\<close>: from the first opening brace to the last closing brace
  after it; no match when there is no such pair.
\<close>

definition match_braces :: "string \<Rightarrow> string option" where
  "match_braces text =
     (let from_open = dropWhile (\<lambda>c. c \<noteq> CHR ''{'') text
      in if CHR ''}'' \<in> set from_open
         then Some (rev (dropWhile (\<lambda>c. c \<noteq> CHR ''}'') (rev from_open)))
         else None)"

text \<open>
  \<^verbatim>\<open>text.match(...)\<close>: only a string has the method. (The value is never \<^verbatim>\<open>undefined\<close>
  or \<^verbatim>\<open>null\<close> here: it comes out of \<^verbatim>\<open>... || ''\<close>.)
\<close>

definition js_match :: "engine \<Rightarrow> jsval \<Rightarrow> thrown + string option" where
  "js_match rt v =
     (case v of
        JStr s \<Rightarrow> Inr (match_braces s)
      | _ \<Rightarrow>
          if nullish v then Inl (type_error rt (ReadProperty v ''match''))
          else Inl (type_error rt (NotAFunction v ''match'')))"

text \<open>\<^verbatim>\<open>data.candidates?.[0]?.content?.parts?.[0]?.text || ''\<close>\<close>

definition gemini_text :: "engine \<Rightarrow> jsval \<Rightarrow> thrown + jsval" where
  "gemini_text rt data =
     (case get_prop rt data ''candidates'' of
        Inl e \<Rightarrow> Inl e
      | Inr candidates \<Rightarrow>
          Inr (js_or
                 (opt_prop (opt_prop (opt_prop (opt_prop (opt_prop candidates ''0'')
                    ''content'') ''parts'') ''0'') ''text'')
                 (JStr [])))"

text \<open>The \<^verbatim>\<open>try\<close> block of \<^verbatim>\<open>GeminiStrategy.processAudio\<close>.\<close>

definition gemini_try ::
  "engine \<Rightarrow> gemini_state \<Rightarrow> buffer \<Rightarrow> fetch_outcome \<Rightarrow> thrown + amd_detection_result"
where
  "gemini_try rt this audioBuffer fetched =
     (case fetched of
        FetchThrows e \<Rightarrow> Inl e
      | FetchResponse response \<Rightarrow>
          if \<not> ok response
          then (case text_body response of
                  Inl e \<Rightarrow> Inl e
                | Inr errorText \<Rightarrow>
                    Inl (ErrorObj (''Gemini API error: '' @ show_nat (status response)
                                     @ '' - '' @ errorText)))
          else
            (case json_body response of
               Inl e \<Rightarrow> Inl e
             | Inr data \<Rightarrow>
                 (case gemini_text rt data of
                    Inl e \<Rightarrow> Inl e
                  | Inr text \<Rightarrow>
                      (case js_match rt text of
                         Inl e \<Rightarrow> Inl e
                       | Inr None \<Rightarrow> Inl (ErrorObj ''Failed to parse Gemini response'')
                       | Inr (Some jsonMatch) \<Rightarrow>
                           (case json_parse rt jsonMatch of
                              Inl e \<Rightarrow> Inl e
                            | Inr parsed \<Rightarrow>
                                (case get_prop rt parsed ''result'' of
                                   Inl e \<Rightarrow> Inl e
                                 | Inr parsedResult \<Rightarrow>
                                     (case js_toLowerCase rt parsedResult of
                                        Inl e \<Rightarrow> Inl e
                                      | Inr resultLower \<Rightarrow>
                                          let res =
                                            (if str_includes resultLower ''human'' then Human
                                             else if str_includes resultLower ''machine''
                                                   \<or> str_includes resultLower ''voicemail''
                                             then Machine
                                             else Undecided)
                                          in Inr \<lparr>result = res,
                                                   confidence =
                                                     js_or (js_prop parsed ''confidence'') (JNum 0.7),
                                                   metadata =
                                                     [(''reasoning'', js_prop parsed ''reasoning''),
                                                      (''rawResponse'', text),
                                                      (''model'', model this)]\<rparr>)))))))"

text \<open>\<^verbatim>\<open>GeminiStrategy.processAudio\<close>: the \<^verbatim>\<open>try\<close> block and its \<^verbatim>\<open>catch\<close>.\<close>

definition gemini_processAudio ::
  "engine \<Rightarrow> gemini_state \<Rightarrow> buffer \<Rightarrow> fetch_outcome \<Rightarrow> amd_detection_result"
where
  "gemini_processAudio rt this audioBuffer fetched =
     (case gemini_try rt this audioBuffer fetched of
        Inr r \<Rightarrow> r
      | Inl error \<Rightarrow>
          \<lparr>result = Unknown, confidence = JNum 0,
           metadata = [(''error'', JStr (error_message error))]\<rparr>)"

section \<open>Streaming\<close>

text \<open>
  What the successive \<^verbatim>\<open>reader.read()\<close> calls of a stream give: a chunk each, or a throw.
  A stream is the list of these in order; after the last one \<^verbatim>\<open>read\<close> reports
  \<^verbatim>\<open>done\<close>. The loop stops reading once 96000 bytes have arrived, so a stream that goes
  on after that is any list with the same beginning. A stream that neither ends nor
  delivers 96000 bytes keeps the loop waiting and is not a list: it is outside the model.
  The stream is taken to be unlocked, so that \<^verbatim>\<open>getReader\<close> succeeds; the release of the
  lock in the \<^verbatim>\<open>finally\<close> block changes no value and is left out.
\<close>

datatype read_event = Chunk buffer | ReadThrows thrown

definition maxBufferSize :: nat where
  "maxBufferSize = 5 * 1024 * 1024"

text \<open>How the \<^verbatim>\<open>while (true)\<close> loop is left: by its \<^verbatim>\<open>return\<close> or by a \<^verbatim>\<open>break\<close>.\<close>

datatype loop_exit = Returned amd_detection_result | Broke "buffer list"

text \<open>
  The loop of \<^verbatim>\<open>handleStream\<close>, the same text in both streaming adapters (the Gemini one
  writes the 5 MiB bound inline). \<open>processAudio\<close> is the adapter's method. The first
  component of the value lists the buffers handed to \<open>processAudio\<close>, one per call.
\<close>

fun handleStream_loop ::
  "(buffer \<Rightarrow> amd_detection_result) \<Rightarrow> buffer list \<Rightarrow> nat \<Rightarrow> read_event list
     \<Rightarrow> buffer list \<times> (thrown + loop_exit)"
where
  "handleStream_loop processAudio chunks totalSize [] = ([], Inr (Broke chunks))"
| "handleStream_loop processAudio chunks totalSize (ReadThrows e # rest) = ([], Inl e)"
| "handleStream_loop processAudio chunks totalSize (Chunk v # rest) =
     (let chunks' = chunks @ [v];
          totalSize' = totalSize + length v
      in if totalSize' \<ge> 48000 * 2
         then ([concat chunks'], Inr (Returned (processAudio (concat chunks'))))
         else if totalSize' > maxBufferSize
         then ([], Inr (Broke chunks'))
         else handleStream_loop processAudio chunks' totalSize' rest)"

text \<open>
  \<^verbatim>\<open>handleStream\<close>: the loop, the call after a \<^verbatim>\<open>break\<close>, and the \<^verbatim>\<open>catch\<close>, which logs
  the error and throws it again.
\<close>

definition handleStream ::
  "(buffer \<Rightarrow> amd_detection_result) \<Rightarrow> read_event list
     \<Rightarrow> buffer list \<times> (thrown + amd_detection_result)"
where
  "handleStream processAudio stream =
     (case handleStream_loop processAudio [] 0 stream of
        (calls, Inl error) \<Rightarrow> (calls, Inl error)
      | (calls, Inr (Returned r)) \<Rightarrow> (calls, Inr r)
      | (calls, Inr (Broke chunks)) \<Rightarrow>
          (calls @ [concat chunks], Inr (processAudio (concat chunks))))"

text \<open>
  The two instances. \<open>remote\<close> is the service behind \<^verbatim>\<open>fetch\<close>: what the request made for
  a given audio buffer yields.
\<close>

definition hf_handleStream ::
  "engine \<Rightarrow> hf_state \<Rightarrow> (buffer \<Rightarrow> fetch_outcome) \<Rightarrow> read_event list
     \<Rightarrow> buffer list \<times> (thrown + amd_detection_result)"
where
  "hf_handleStream rt this remote stream =
     handleStream (\<lambda>buf. hf_processAudio rt this buf (remote buf)) stream"

definition gemini_handleStream ::
  "engine \<Rightarrow> gemini_state \<Rightarrow> (buffer \<Rightarrow> fetch_outcome) \<Rightarrow> read_event list
     \<Rightarrow> buffer list \<times> (thrown + amd_detection_result)"
where
  "gemini_handleStream rt this remote stream =
     handleStream (\<lambda>buf. gemini_processAudio rt this buf (remote buf)) stream"

section \<open>Initialisation\<close>

text \<open>
  \<^verbatim>\<open>config\<close> is an object, given by its properties; \<^verbatim>\<open>process.env\<close> maps names to
  strings. Each \<^verbatim>\<open>initialize\<close> returns the instance as its assignments leave it, and what
  it throws, if it throws.
\<close>

type_synonym config = "(string \<times> jsval) list"
type_synonym env = "(string \<times> string) list"

text \<open>\<^verbatim>\<open>process.env.NAME\<close>\<close>

definition env_var :: "env \<Rightarrow> string \<Rightarrow> jsval" where
  "env_var e name = (case map_of e name of Some s \<Rightarrow> JStr s | None \<Rightarrow> JUndefined)"

text \<open>
  \<^verbatim>\<open>HuggingFaceStrategy.initialize\<close>. \<open>health\<close> is what the fetch of \<^verbatim>\<open>/health\<close> yields. The
  second component lists the calls of \<^verbatim>\<open>console.warn\<close>.
\<close>

definition hf_initialize ::
  "hf_state \<Rightarrow> env \<Rightarrow> config \<Rightarrow> fetch_outcome \<Rightarrow> hf_state \<times> (string \<times> thrown) list \<times> thrown option"
where
  "hf_initialize this e cfg health =
     (let this' = this
            \<lparr>serviceUrl :=
               js_or (js_or (env_var e ''HF_SERVICE_URL'') (js_prop (JObj cfg) ''serviceUrl''))
                     (JStr ''http://localhost:8000''),
             confidenceThreshold :=
               js_or (js_prop (JObj cfg) ''confidenceThreshold'') (JNum 0.7)\<rparr>;
          probe =
            (case health of
               FetchThrows err \<Rightarrow> Some err
             | FetchResponse response \<Rightarrow>
                 if \<not> ok response then Some (ErrorObj ''HuggingFace service not responding'')
                 else None)
      in case probe of
           Some err \<Rightarrow> (this', [(''HuggingFace service health check failed:'', err)], None)
         | None \<Rightarrow> (this', [], None))"

text \<open>\<^verbatim>\<open>GeminiStrategy.initialize\<close>\<close>

definition gemini_initialize :: "gemini_state \<Rightarrow> env \<Rightarrow> config \<Rightarrow> gemini_state \<times> thrown option" where
  "gemini_initialize this e cfg =
     (let this' = this
            \<lparr>apiKey := js_or (env_var e ''GEMINI_API_KEY'') (js_prop (JObj cfg) ''apiKey''),
             model := js_or (js_prop (JObj cfg) ''model'') (JStr ''gemini-2.5-flash'')\<rparr>
      in if \<not> truthy (apiKey this')
         then (this', Some (ErrorObj ''Gemini API key not configured''))
         else (this', None))"

record jambonz_state =
  jambonz_config :: config
  jambonzUrl :: jsval

definition new_JambonzStrategy :: jambonz_state where
  "new_JambonzStrategy = \<lparr>jambonz_config = [], jambonzUrl = JUndefined\<rparr>"

text \<open>
  \<^verbatim>\<open>JambonzStrategy.initialize\<close>. In \<^verbatim>\<open>{defaults, ...config}\<close> a property of \<^verbatim>\<open>config\<close>
  replaces the default of its name: its entry comes first in the list.
\<close>

definition jambonz_initialize ::
  "jambonz_state \<Rightarrow> env \<Rightarrow> config \<Rightarrow> jambonz_state \<times> thrown option"
where
  "jambonz_initialize this e cfg =
     (let this' = this
            \<lparr>jambonz_config :=
               cfg @ [(''thresholdWordCount'', JNum 5),
                      (''decisionTimeoutMs'', JNum 10000),
                      (''toneTimeoutMs'', JNum 5000),
                      (''greetingCompletionTimeoutMs'', JNum 3000)],
             jambonzUrl := js_or (env_var e ''JAMBONZ_URL'') (js_prop (JObj cfg) ''jambonzUrl'')\<rparr>
      in if \<not> truthy (jambonzUrl this')
         then (this', Some (ErrorObj ''Jambonz URL not configured''))
         else (this', None))"

record twilio_state =
  twilio_config :: config

definition new_TwilioNativeStrategy :: twilio_state where
  "new_TwilioNativeStrategy = \<lparr>twilio_config = []\<rparr>"

text \<open>\<^verbatim>\<open>TwilioNativeStrategy.initialize\<close>\<close>

definition twilio_initialize :: "twilio_state \<Rightarrow> env \<Rightarrow> config \<Rightarrow> twilio_state \<times> thrown option" where
  "twilio_initialize this e cfg =
     (this\<lparr>twilio_config :=
              cfg @ [(''machineDetection'', JStr ''DetectMessageEnd''),
                     (''asyncAmd'', JBool True),
                     (''asyncAmdStatusCallback'', js_prop (JObj cfg) ''statusCallbackUrl''),
                     (''machineDetectionTimeout'', JNum 30),
                     (''machineDetectionSpeechThreshold'', JNum 2400),
                     (''machineDetectionSpeechEndThreshold'', JNum 1200),
                     (''machineDetectionSilenceTimeout'', JNum 5000)]\<rparr>,
      None)"

section \<open>Factory\<close>

datatype amd_strategy =
    TwilioNativeStrategy twilio_state
  | JambonzStrategy jambonz_state
  | HuggingFaceStrategy hf_state
  | GeminiStrategy gemini_state

text \<open>\<^verbatim>\<open>createAmdStrategy\<close> of amd-strategies.ts; \<open>Inl\<close> is the throw of its \<^verbatim>\<open>default\<close> branch.\<close>

definition createAmdStrategy :: "string \<Rightarrow> thrown + amd_strategy" where
  "createAmdStrategy type =
     (if type = ''twilio_native'' then Inr (TwilioNativeStrategy new_TwilioNativeStrategy)
      else if type = ''jambonz'' then Inr (JambonzStrategy new_JambonzStrategy)
      else if type = ''huggingface'' then Inr (HuggingFaceStrategy new_HuggingFaceStrategy)
      else if type = ''gemini'' then Inr (GeminiStrategy new_GeminiStrategy)
      else Inl (ErrorObj (''Unknown AMD strategy: '' @ type)))"

section \<open>Vocabulary of the properties\<close>

text \<open>What a call gave: nothing when it threw, else the outcome and the confidence.\<close>

definition outcome ::
  "thrown + 'a amd_detection_result_scheme \<Rightarrow> (amd_result \<times> jsval) option"
where
  "outcome x = (case x of Inl e \<Rightarrow> None | Inr r \<Rightarrow> Some (result r, confidence r))"

text \<open>A confidence is in range when it is a number between 0 and 1.\<close>

definition in_unit_interval :: "jsval \<Rightarrow> bool" where
  "in_unit_interval v = (case v of JNum x \<Rightarrow> 0 \<le> x \<and> x \<le> 1 | _ \<Rightarrow> False)"

text \<open>
  The score the Hugging Face adapter reads from a body: \<^verbatim>\<open>data.confidence || data.score ||
  0.0\<close>.
\<close>

definition hf_score :: "jsval \<Rightarrow> jsval" where
  "hf_score data = js_or (js_or (js_prop data ''confidence'') (js_prop data ''score'')) (JNum 0)"

text \<open>A lower-cased label that one of the two branches of the decision rule takes.\<close>

definition names_class :: "string \<Rightarrow> bool" where
  "names_class label \<longleftrightarrow>
     str_includes label ''voicemail'' \<or> str_includes label ''machine''
     \<or> str_includes label ''human'' \<or> str_includes label ''person''"

text \<open>
  A result that reports no failure: its outcome is not \<open>Unknown\<close>, its confidence is the
  given value and its metadata has no \<open>error\<close>.
\<close>

definition answers :: "amd_detection_result \<Rightarrow> jsval \<Rightarrow> bool" where
  "answers r conf \<longleftrightarrow>
     result r \<noteq> Unknown \<and> confidence r = conf \<and> map_of (metadata r) ''error'' = None"

text \<open>
  An engine for the examples: it words every \<^verbatim>\<open>TypeError\<close> the same, takes every coerced
  comparison for false and every coerced number for \<^verbatim>\<open>NaN\<close>, and rejects every text as
  JSON. The examples that need a block to parse replace its \<open>json_parse\<close>.
\<close>

definition sample_engine :: engine where
  "sample_engine =
     \<lparr>type_error_text = (\<lambda>fault. ''TypeError''),
      coerced_ge = (\<lambda>a b. False),
      to_number = (\<lambda>v. None),
      json_parse = (\<lambda>s. Inl (ErrorObj ''Unexpected token''))\<rparr>"

section \<open>Properties\<close>

subsection \<open>Failures of the remote call\<close>

lemma error_message_type_error [simp]:
  "error_message (type_error rt fault) = type_error_text rt fault"
  by (simp add: type_error_def)

lemma js_toLowerCase_str [simp]: "js_toLowerCase rt (JStr s) = Inr (toLowerCase s)"
  by (simp add: js_toLowerCase_def)

lemma js_toLowerCase_nullish:
  "nullish v \<Longrightarrow> js_toLowerCase rt v = Inl (type_error rt (ReadProperty v ''toLowerCase''))"
  by (cases v) (simp_all add: js_toLowerCase_def nullish_def)

lemma js_toLowerCase_other:
  "\<not> nullish v \<Longrightarrow> \<forall>l. v \<noteq> JStr l \<Longrightarrow>
   js_toLowerCase rt v = Inl (type_error rt (NotAFunction v ''toLowerCase''))"
  by (cases v) (simp_all add: js_toLowerCase_def nullish_def)

lemma js_match_str [simp]: "js_match rt (JStr s) = Inr (match_braces s)"
  by (simp add: js_match_def)

lemma js_match_other:
  "\<not> nullish v \<Longrightarrow> \<forall>s. v \<noteq> JStr s \<Longrightarrow>
   js_match rt v = Inl (type_error rt (NotAFunction v ''match''))"
  by (cases v) (simp_all add: js_match_def nullish_def)

lemma get_prop_nullish:
  "nullish v \<Longrightarrow> get_prop rt v k = Inl (type_error rt (ReadProperty v k))"
  by (simp add: get_prop_def)

lemma get_prop_value: "\<not> nullish v \<Longrightarrow> get_prop rt v k = Inr (js_prop v k)"
  by (simp add: get_prop_def)

lemma js_ge_numbers [simp]: "js_ge rt (JNum x) (JNum y) = Inr (y \<le> x)"
  by (simp add: js_ge_def)

lemma unconvertible_not_number: "unconvertible v \<Longrightarrow> \<forall>x. v \<noteq> JNum x"
  by (cases v) simp_all

lemma js_ge_left_throws:
  "unconvertible a \<Longrightarrow> js_ge rt a b = Inl (type_error rt (CannotConvert a))"
  by (cases a) (simp_all add: js_ge_def)

lemma js_ge_right_throws:
  "\<not> unconvertible a \<Longrightarrow> unconvertible b \<Longrightarrow>
   js_ge rt a b = Inl (type_error rt (CannotConvert b))"
  by (cases a; cases b) (simp_all add: js_ge_def)

lemma js_ge_convertible:
  "\<not> unconvertible a \<Longrightarrow> \<not> unconvertible b \<Longrightarrow> \<exists>r. js_ge rt a b = Inr r"
  by (cases a; cases b) (simp_all add: js_ge_def)

lemma hf_fail_fetch:
  "hf_processAudio rt this buf (FetchThrows e) = failure_result (error_message e)"
  by (simp add: hf_processAudio_def hf_try_def)

lemma hf_fail_status:
  "\<not> ok response \<Longrightarrow> hf_processAudio rt this buf (FetchResponse response) =
     failure_result (''HuggingFace service error: '' @ statusText response)"
  by (simp add: hf_processAudio_def hf_try_def)

lemma hf_fail_json:
  "ok response \<Longrightarrow> json_body response = Inl e \<Longrightarrow>
   hf_processAudio rt this buf (FetchResponse response) = failure_result (error_message e)"
  by (simp add: hf_processAudio_def hf_try_def)

lemma hf_fail_data:
  "ok response \<Longrightarrow> json_body response = Inr data \<Longrightarrow> nullish data \<Longrightarrow>
   hf_processAudio rt this buf (FetchResponse response) =
     failure_result (type_error_text rt (ReadProperty data ''label''))"
  by (simp add: hf_processAudio_def hf_try_def get_prop_nullish)

lemma hf_fail_label_missing:
  "ok response \<Longrightarrow> json_body response = Inr data \<Longrightarrow> \<not> nullish data \<Longrightarrow>
   nullish (js_prop data ''label'') \<Longrightarrow>
   hf_processAudio rt this buf (FetchResponse response) =
     failure_result (type_error_text rt (ReadProperty (js_prop data ''label'') ''toLowerCase''))"
  by (simp add: hf_processAudio_def hf_try_def get_prop_value js_toLowerCase_nullish)

lemma hf_fail_label_type:
  "ok response \<Longrightarrow> json_body response = Inr data \<Longrightarrow> \<not> nullish data \<Longrightarrow>
   \<not> nullish (js_prop data ''label'') \<Longrightarrow> \<forall>l. js_prop data ''label'' \<noteq> JStr l \<Longrightarrow>
   hf_processAudio rt this buf (FetchResponse response) =
     failure_result (type_error_text rt (NotAFunction (js_prop data ''label'') ''toLowerCase''))"
  by (simp add: hf_processAudio_def hf_try_def get_prop_value js_toLowerCase_other)

text \<open>The \<^verbatim>\<open>try\<close> block once the label is text.\<close>

lemma hf_try_labelled:
  assumes "ok response" and "json_body response = Inr data" and "\<not> nullish data"
    and "js_prop data ''label'' = JStr l"
  shows "hf_try rt this buf (FetchResponse response) =
     (if names_class (toLowerCase l)
      then (case js_ge rt (hf_score data) (confidenceThreshold this) of
              Inl e \<Rightarrow> Inl e
            | Inr reached \<Rightarrow>
                Inr \<lparr>result =
                       (if reached
                        then (if str_includes (toLowerCase l) ''voicemail''
                                 \<or> str_includes (toLowerCase l) ''machine''
                              then Machine else Human)
                        else Undecided),
                     confidence = hf_score data,
                     metadata = [(''modelLabel'', JStr l),
                                 (''rawScore'', js_prop data ''confidence''),
                                 (''processingTime'', js_prop data ''processingTime'')]\<rparr>)
      else Inr \<lparr>result = Undecided, confidence = hf_score data,
                 metadata = [(''modelLabel'', JStr l),
                             (''rawScore'', js_prop data ''confidence''),
                             (''processingTime'', js_prop data ''processingTime'')]\<rparr>)"
  using assms
  by (simp add: hf_try_def get_prop_value names_class_def hf_score_def Let_def
      split: sum.splits)

lemma hf_fail_compare:
  assumes "ok response" and "json_body response = Inr data" and "\<not> nullish data"
    and "js_prop data ''label'' = JStr l" and "names_class (toLowerCase l)"
    and "js_ge rt (hf_score data) (confidenceThreshold this) = Inl e"
  shows "hf_processAudio rt this buf (FetchResponse response) = failure_result (error_message e)"
  using assms(5,6) by (simp add: hf_processAudio_def hf_try_labelled [OF assms(1-4)])

lemma hf_complete:
  assumes "ok response" and "json_body response = Inr data" and "\<not> nullish data"
    and "js_prop data ''label'' = JStr l"
    and "names_class (toLowerCase l) \<longrightarrow>
           (\<exists>r. js_ge rt (hf_score data) (confidenceThreshold this) = Inr r)"
  shows "answers (hf_processAudio rt this buf (FetchResponse response)) (hf_score data)"
  using assms(5)
  by (auto simp: answers_def hf_processAudio_def hf_try_labelled [OF assms(1-4)]
      split: if_splits)

lemma hf_failure_or_complete:
  "(\<exists>msg. hf_processAudio rt hf buf fetched = failure_result msg)
   \<or> (\<exists>response data l. fetched = FetchResponse response \<and> ok response
         \<and> json_body response = Inr data \<and> \<not> nullish data
         \<and> js_prop data ''label'' = JStr l
         \<and> answers (hf_processAudio rt hf buf fetched) (hf_score data))"
proof (cases fetched)
  case (FetchThrows e)
  then show ?thesis using hf_fail_fetch by blast
next
  case (FetchResponse response)
  note fr = this
  show ?thesis
  proof (cases "ok response")
    case False
    then show ?thesis using fr hf_fail_status by blast
  next
    case True
    note ok = this
    show ?thesis
    proof (cases "json_body response")
      case (Inl e)
      then show ?thesis using fr ok hf_fail_json by blast
    next
      case (Inr data)
      note data = this
      show ?thesis
      proof (cases "nullish data")
        case True
        from hf_fail_data [OF ok data True, of rt hf buf] show ?thesis using fr by blast
      next
        case False
        note obj = this
        show ?thesis
        proof (cases "\<exists>l. js_prop data ''label'' = JStr l")
          case False
          then have ns: "\<forall>l. js_prop data ''label'' \<noteq> JStr l" by blast
          show ?thesis
          proof (cases "nullish (js_prop data ''label'')")
            case True
            from hf_fail_label_missing [OF ok data obj True, of rt hf buf]
            show ?thesis using fr by blast
          next
            case False
            from hf_fail_label_type [OF ok data obj False ns, of rt hf buf]
            show ?thesis using fr by blast
          qed
        next
          case True
          then obtain l where l: "js_prop data ''label'' = JStr l" by blast
          show ?thesis
          proof (cases "names_class (toLowerCase l)
                        \<and> (\<exists>e. js_ge rt (hf_score data) (confidenceThreshold hf) = Inl e)")
            case True
            then obtain e where "names_class (toLowerCase l)"
              "js_ge rt (hf_score data) (confidenceThreshold hf) = Inl e" by blast
            from hf_fail_compare [OF ok data obj l this, of buf]
            show ?thesis using fr by blast
          next
            case False
            then have "names_class (toLowerCase l) \<longrightarrow>
                (\<exists>r. js_ge rt (hf_score data) (confidenceThreshold hf) = Inr r)"
              by (cases "js_ge rt (hf_score data) (confidenceThreshold hf)") auto
            from hf_complete [OF ok data obj l this, of buf]
            show ?thesis using fr ok data obj l by blast
          qed
        qed
      qed
    qed
  qed
qed

lemma truthy_not_nullish: "truthy v \<Longrightarrow> \<not> nullish v"
  by (cases v) (simp_all add: nullish_def)

lemma gemini_text_not_nullish: "gemini_text rt data = Inr v \<Longrightarrow> \<not> nullish v"
  by (auto simp: gemini_text_def js_or_def nullish_def get_prop_def truthy_not_nullish
      split: if_splits dest: truthy_not_nullish)

lemma gemini_text_missing:
  "map_of kvs ''candidates'' = None \<Longrightarrow> gemini_text rt (JObj kvs) = Inr (JStr [])"
  by (simp add: gemini_text_def get_prop_def nullish_def opt_prop_def js_or_def)

lemma match_braces_empty: "match_braces [] = None"
  by (simp add: match_braces_def)

lemma gemini_fail_fetch:
  "gemini_processAudio rt this buf (FetchThrows e) = failure_result (error_message e)"
  by (simp add: gemini_processAudio_def gemini_try_def)

lemma gemini_fail_status:
  "\<not> ok response \<Longrightarrow> text_body response = Inr errorText \<Longrightarrow>
   gemini_processAudio rt this buf (FetchResponse response) =
     failure_result (''Gemini API error: '' @ show_nat (status response) @ '' - '' @ errorText)"
  by (simp add: gemini_processAudio_def gemini_try_def)

lemma gemini_fail_status_text:
  "\<not> ok response \<Longrightarrow> text_body response = Inl e \<Longrightarrow>
   gemini_processAudio rt this buf (FetchResponse response) = failure_result (error_message e)"
  by (simp add: gemini_processAudio_def gemini_try_def)

lemma gemini_fail_json:
  "ok response \<Longrightarrow> json_body response = Inl e \<Longrightarrow>
   gemini_processAudio rt this buf (FetchResponse response) = failure_result (error_message e)"
  by (simp add: gemini_processAudio_def gemini_try_def)

lemma gemini_fail_data:
  "ok response \<Longrightarrow> json_body response = Inr data \<Longrightarrow> nullish data \<Longrightarrow>
   gemini_processAudio rt this buf (FetchResponse response) =
     failure_result (type_error_text rt (ReadProperty data ''candidates''))"
  by (simp add: gemini_processAudio_def gemini_try_def gemini_text_def get_prop_nullish)

lemma gemini_fail_reply_type:
  assumes "ok response" and "json_body response = Inr data"
    and "gemini_text rt data = Inr v" and "\<forall>s. v \<noteq> JStr s"
  shows "gemini_processAudio rt this buf (FetchResponse response) =
     failure_result (type_error_text rt (NotAFunction v ''match''))"
proof -
  have "js_match rt v = Inl (type_error rt (NotAFunction v ''match''))"
    using gemini_text_not_nullish [OF assms(3)] assms(4) by (rule js_match_other)
  with assms(1-3) show ?thesis by (simp add: gemini_processAudio_def gemini_try_def)
qed

lemma gemini_fail_no_block:
  "ok response \<Longrightarrow> json_body response = Inr data \<Longrightarrow> gemini_text rt data = Inr (JStr reply) \<Longrightarrow>
   match_braces reply = None \<Longrightarrow>
   gemini_processAudio rt this buf (FetchResponse response) =
     failure_result ''Failed to parse Gemini response''"
  by (simp add: gemini_processAudio_def gemini_try_def)

lemma gemini_fail_parse:
  "ok response \<Longrightarrow> json_body response = Inr data \<Longrightarrow> gemini_text rt data = Inr (JStr reply) \<Longrightarrow>
   match_braces reply = Some block \<Longrightarrow> json_parse rt block = Inl e \<Longrightarrow>
   gemini_processAudio rt this buf (FetchResponse response) = failure_result (error_message e)"
  by (simp add: gemini_processAudio_def gemini_try_def)

lemma gemini_fail_parsed:
  "ok response \<Longrightarrow> json_body response = Inr data \<Longrightarrow> gemini_text rt data = Inr (JStr reply) \<Longrightarrow>
   match_braces reply = Some block \<Longrightarrow> json_parse rt block = Inr parsed \<Longrightarrow> nullish parsed \<Longrightarrow>
   gemini_processAudio rt this buf (FetchResponse response) =
     failure_result (type_error_text rt (ReadProperty parsed ''result''))"
  by (simp add: gemini_processAudio_def gemini_try_def get_prop_nullish)

lemma gemini_fail_result_missing:
  "ok response \<Longrightarrow> json_body response = Inr data \<Longrightarrow> gemini_text rt data = Inr (JStr reply) \<Longrightarrow>
   match_braces reply = Some block \<Longrightarrow> json_parse rt block = Inr parsed \<Longrightarrow>
   \<not> nullish parsed \<Longrightarrow> nullish (js_prop parsed ''result'') \<Longrightarrow>
   gemini_processAudio rt this buf (FetchResponse response) =
     failure_result (type_error_text rt (ReadProperty (js_prop parsed ''result'') ''toLowerCase''))"
  by (simp add: gemini_processAudio_def gemini_try_def get_prop_value js_toLowerCase_nullish)

lemma gemini_fail_result_type:
  "ok response \<Longrightarrow> json_body response = Inr data \<Longrightarrow> gemini_text rt data = Inr (JStr reply) \<Longrightarrow>
   match_braces reply = Some block \<Longrightarrow> json_parse rt block = Inr parsed \<Longrightarrow>
   \<not> nullish parsed \<Longrightarrow> \<not> nullish (js_prop parsed ''result'') \<Longrightarrow>
   \<forall>l. js_prop parsed ''result'' \<noteq> JStr l \<Longrightarrow>
   gemini_processAudio rt this buf (FetchResponse response) =
     failure_result (type_error_text rt (NotAFunction (js_prop parsed ''result'') ''toLowerCase''))"
  by (simp add: gemini_processAudio_def gemini_try_def get_prop_value js_toLowerCase_other)

lemma gemini_complete:
  assumes "ok response" and "json_body response = Inr data"
    and "gemini_text rt data = Inr (JStr reply)" and "match_braces reply = Some block"
    and "json_parse rt block = Inr parsed" and "\<not> nullish parsed"
    and "js_prop parsed ''result'' = JStr l"
  shows "answers (gemini_processAudio rt this buf (FetchResponse response))
           (js_or (js_prop parsed ''confidence'') (JNum 0.7))"
  using assms
  by (simp add: answers_def gemini_processAudio_def gemini_try_def get_prop_value Let_def)

lemma gemini_failure_or_complete:
  "(\<exists>msg. gemini_processAudio rt gm buf fetched = failure_result msg)
   \<or> (\<exists>response data reply block parsed l. fetched = FetchResponse response \<and> ok response
         \<and> json_body response = Inr data \<and> gemini_text rt data = Inr (JStr reply)
         \<and> match_braces reply = Some block \<and> json_parse rt block = Inr parsed
         \<and> \<not> nullish parsed \<and> js_prop parsed ''result'' = JStr l
         \<and> answers (gemini_processAudio rt gm buf fetched)
               (js_or (js_prop parsed ''confidence'') (JNum 0.7)))"
proof (cases fetched)
  case (FetchThrows e)
  then show ?thesis using gemini_fail_fetch by blast
next
  case (FetchResponse response)
  note fr = this
  show ?thesis
  proof (cases "ok response")
    case False
    then show ?thesis
      using fr gemini_fail_status [of response] gemini_fail_status_text [of response]
      by (cases "text_body response") blast+
  next
    case True
    note ok = this
    show ?thesis
    proof (cases "json_body response")
      case (Inl e)
      then show ?thesis using fr ok gemini_fail_json by blast
    next
      case (Inr data)
      note data = this
      show ?thesis
      proof (cases "gemini_text rt data")
        case (Inl e)
        then have "gemini_processAudio rt gm buf (FetchResponse response)
            = failure_result (error_message e)"
          using ok data by (simp add: gemini_processAudio_def gemini_try_def)
        then show ?thesis using fr by blast
      next
        case (Inr v)
        note v = this
        show ?thesis
        proof (cases "\<exists>reply. v = JStr reply")
          case False
          then have "\<forall>s. v \<noteq> JStr s" by blast
          from gemini_fail_reply_type [OF ok data v this, of gm buf]
          show ?thesis using fr by blast
        next
          case True
          then obtain reply where reply: "gemini_text rt data = Inr (JStr reply)"
            using v by blast
          show ?thesis
          proof (cases "match_braces reply")
            case None
            from gemini_fail_no_block [OF ok data reply None, of gm buf]
            show ?thesis using fr by blast
          next
            case (Some block)
            note block = this
            show ?thesis
            proof (cases "json_parse rt block")
              case (Inl e)
              from gemini_fail_parse [OF ok data reply block Inl, of gm buf]
              show ?thesis using fr by blast
            next
              case (Inr parsed)
              note parsed = this
              show ?thesis
              proof (cases "nullish parsed")
                case True
                from gemini_fail_parsed [OF ok data reply block parsed True, of gm buf]
                show ?thesis using fr by blast
              next
                case False
                note obj = this
                show ?thesis
                proof (cases "\<exists>l. js_prop parsed ''result'' = JStr l")
                  case True
                  then obtain l where l: "js_prop parsed ''result'' = JStr l" by blast
                  from gemini_complete [OF ok data reply block parsed obj l, of gm buf]
                  show ?thesis using fr ok data reply block parsed obj l by blast
                next
                  case False
                  then have ns: "\<forall>l. js_prop parsed ''result'' \<noteq> JStr l" by blast
                  show ?thesis
                  proof (cases "nullish (js_prop parsed ''result'')")
                    case True
                    from gemini_fail_result_missing [OF ok data reply block parsed obj True, of gm buf]
                    show ?thesis using fr by blast
                  next
                    case False
                    from gemini_fail_result_type [OF ok data reply block parsed obj False ns, of gm buf]
                    show ?thesis using fr by blast
                  qed
                qed
              qed
            qed
          qed
        qed
      qed
    qed
  qed
qed

lemma hf_fail_convert:
  assumes "ok response" and "json_body response = Inr data" and "\<not> nullish data"
    and "js_prop data ''label'' = JStr l" and "names_class (toLowerCase l)"
    and "unconvertible (hf_score data) \<or> unconvertible (confidenceThreshold this)"
  shows "hf_processAudio rt this buf (FetchResponse response) =
     failure_result (type_error_text rt (CannotConvert
       (if unconvertible (hf_score data) then hf_score data else confidenceThreshold this)))"
proof (cases "unconvertible (hf_score data)")
  case True
  from hf_fail_compare [OF assms(1-5) js_ge_left_throws [OF True, of rt "confidenceThreshold this"], of buf]
  show ?thesis using True by simp
next
  case False
  with assms(6) have "unconvertible (confidenceThreshold this)" by simp
  from hf_fail_compare [OF assms(1-5) js_ge_right_throws [OF False this, of rt], of buf]
  show ?thesis using False by simp
qed

lemma hf_answers:
  assumes "ok response" and "json_body response = Inr data" and "\<not> nullish data"
    and "js_prop data ''label'' = JStr l"
    and "names_class (toLowerCase l) \<longrightarrow>
           \<not> unconvertible (hf_score data) \<and> \<not> unconvertible (confidenceThreshold this)"
  shows "answers (hf_processAudio rt this buf (FetchResponse response)) (hf_score data)"
  using hf_complete [OF assms(1-4), of rt this buf] assms(5) js_ge_convertible by blast

lemma hf_score_missing:
  "\<not> truthy (js_prop data ''confidence'') \<Longrightarrow> \<not> truthy (js_prop data ''score'') \<Longrightarrow>
   hf_score data = JNum 0"
  by (simp add: hf_score_def js_or_def)

text \<open>
  C1, as the code has it. \<^verbatim>\<open>processAudio\<close> of the Hugging Face adapter and of the Gemini
  adapter returns a result on every input. Each of the following ends in the result
  \<open>Unknown\<close> with confidence 0 and the message of the error under \<open>error\<close> in the
  metadata: \<^verbatim>\<open>fetch\<close> throwing (no connection, timeout); a response that is not OK; a body
  that is not JSON; a body that is \<^verbatim>\<open>null\<close>; a label (Hugging Face) or a \<open>result\<close> field
  (Gemini) that is missing or not text; for Hugging Face, a label that names a class together
  with a score or a threshold that cannot be converted for the comparison; for Gemini, a
  reply that is not text, a reply with no block in braces, a block that is not JSON. The
  message is the one the code builds, the one the thrown error carries, or the engine's
  message for the \<^verbatim>\<open>TypeError\<close>. Nothing else is a failure. In particular a score that
  is missing is read as 0 and one that is not a number is kept as it is: when the label is
  text (and the comparison, if made, can convert its operands), the Hugging Face result
  has an outcome other than \<open>Unknown\<close>, the score as its confidence and no \<open>error\<close>; and
  a Gemini reply whose block parses with a \<open>result\<close> that is text gives an outcome other
  than \<open>Unknown\<close> with the confidence of the block, or 0.7 when that is falsy.
\<close>

theorem processAudio_failures_are_results:
  "(\<forall>e. hf_processAudio rt hf buf (FetchThrows e) = failure_result (error_message e))
   \<and> (\<forall>response. \<not> ok response \<longrightarrow>
         hf_processAudio rt hf buf (FetchResponse response) =
           failure_result (''HuggingFace service error: '' @ statusText response))
   \<and> (\<forall>response e. ok response \<and> json_body response = Inl e \<longrightarrow>
         hf_processAudio rt hf buf (FetchResponse response) = failure_result (error_message e))
   \<and> (\<forall>response data. ok response \<and> json_body response = Inr data \<and> nullish data \<longrightarrow>
         hf_processAudio rt hf buf (FetchResponse response) =
           failure_result (type_error_text rt (ReadProperty data ''label'')))
   \<and> (\<forall>response data. ok response \<and> json_body response = Inr data \<and> \<not> nullish data
           \<and> nullish (js_prop data ''label'') \<longrightarrow>
         hf_processAudio rt hf buf (FetchResponse response) =
           failure_result
             (type_error_text rt (ReadProperty (js_prop data ''label'') ''toLowerCase'')))
   \<and> (\<forall>response data. ok response \<and> json_body response = Inr data \<and> \<not> nullish data
           \<and> \<not> nullish (js_prop data ''label'') \<and> (\<forall>l. js_prop data ''label'' \<noteq> JStr l) \<longrightarrow>
         hf_processAudio rt hf buf (FetchResponse response) =
           failure_result
             (type_error_text rt (NotAFunction (js_prop data ''label'') ''toLowerCase'')))
   \<and> (\<forall>response data l. ok response \<and> json_body response = Inr data \<and> \<not> nullish data
           \<and> js_prop data ''label'' = JStr l \<and> names_class (toLowerCase l)
           \<and> (unconvertible (hf_score data) \<or> unconvertible (confidenceThreshold hf)) \<longrightarrow>
         hf_processAudio rt hf buf (FetchResponse response) =
           failure_result (type_error_text rt (CannotConvert
             (if unconvertible (hf_score data) then hf_score data
              else confidenceThreshold hf))))
   \<and> (\<forall>response data l. ok response \<and> json_body response = Inr data \<and> \<not> nullish data
           \<and> js_prop data ''label'' = JStr l
           \<and> (names_class (toLowerCase l) \<longrightarrow>
                \<not> unconvertible (hf_score data) \<and> \<not> unconvertible (confidenceThreshold hf)) \<longrightarrow>
         answers (hf_processAudio rt hf buf (FetchResponse response)) (hf_score data))
   \<and> (\<forall>data. \<not> truthy (js_prop data ''confidence'') \<and> \<not> truthy (js_prop data ''score'') \<longrightarrow>
         hf_score data = JNum 0)
   \<and> ((\<exists>msg. hf_processAudio rt hf buf fetched = failure_result msg)
        \<or> (\<exists>response data l. fetched = FetchResponse response \<and> ok response
              \<and> json_body response = Inr data \<and> \<not> nullish data
              \<and> js_prop data ''label'' = JStr l
              \<and> answers (hf_processAudio rt hf buf fetched) (hf_score data)))
   \<and> (\<forall>e. gemini_processAudio rt gm buf (FetchThrows e) = failure_result (error_message e))
   \<and> (\<forall>response errorText. \<not> ok response \<and> text_body response = Inr errorText \<longrightarrow>
         gemini_processAudio rt gm buf (FetchResponse response) =
           failure_result (''Gemini API error: '' @ show_nat (status response) @ '' - ''
                             @ errorText))
   \<and> (\<forall>response e. \<not> ok response \<and> text_body response = Inl e \<longrightarrow>
         gemini_processAudio rt gm buf (FetchResponse response) = failure_result (error_message e))
   \<and> (\<forall>response e. ok response \<and> json_body response = Inl e \<longrightarrow>
         gemini_processAudio rt gm buf (FetchResponse response) = failure_result (error_message e))
   \<and> (\<forall>response data. ok response \<and> json_body response = Inr data \<and> nullish data \<longrightarrow>
         gemini_processAudio rt gm buf (FetchResponse response) =
           failure_result (type_error_text rt (ReadProperty data ''candidates'')))
   \<and> (\<forall>response data v. ok response \<and> json_body response = Inr data
           \<and> gemini_text rt data = Inr v \<and> (\<forall>s. v \<noteq> JStr s) \<longrightarrow>
         gemini_processAudio rt gm buf (FetchResponse response) =
           failure_result (type_error_text rt (NotAFunction v ''match'')))
   \<and> (\<forall>response data reply. ok response \<and> json_body response = Inr data
           \<and> gemini_text rt data = Inr (JStr reply) \<and> match_braces reply = None \<longrightarrow>
         gemini_processAudio rt gm buf (FetchResponse response) =
           failure_result ''Failed to parse Gemini response'')
   \<and> (\<forall>response data reply block e. ok response \<and> json_body response = Inr data
           \<and> gemini_text rt data = Inr (JStr reply) \<and> match_braces reply = Some block
           \<and> json_parse rt block = Inl e \<longrightarrow>
         gemini_processAudio rt gm buf (FetchResponse response) = failure_result (error_message e))
   \<and> (\<forall>response data reply block parsed. ok response \<and> json_body response = Inr data
           \<and> gemini_text rt data = Inr (JStr reply) \<and> match_braces reply = Some block
           \<and> json_parse rt block = Inr parsed \<and> nullish parsed \<longrightarrow>
         gemini_processAudio rt gm buf (FetchResponse response) =
           failure_result (type_error_text rt (ReadProperty parsed ''result'')))
   \<and> (\<forall>response data reply block parsed. ok response \<and> json_body response = Inr data
           \<and> gemini_text rt data = Inr (JStr reply) \<and> match_braces reply = Some block
           \<and> json_parse rt block = Inr parsed \<and> \<not> nullish parsed
           \<and> nullish (js_prop parsed ''result'') \<longrightarrow>
         gemini_processAudio rt gm buf (FetchResponse response) =
           failure_result
             (type_error_text rt (ReadProperty (js_prop parsed ''result'') ''toLowerCase'')))
   \<and> (\<forall>response data reply block parsed. ok response \<and> json_body response = Inr data
           \<and> gemini_text rt data = Inr (JStr reply) \<and> match_braces reply = Some block
           \<and> json_parse rt block = Inr parsed \<and> \<not> nullish parsed
           \<and> \<not> nullish (js_prop parsed ''result'')
           \<and> (\<forall>l. js_prop parsed ''result'' \<noteq> JStr l) \<longrightarrow>
         gemini_processAudio rt gm buf (FetchResponse response) =
           failure_result
             (type_error_text rt (NotAFunction (js_prop parsed ''result'') ''toLowerCase'')))
   \<and> (\<forall>response data reply block parsed l. ok response \<and> json_body response = Inr data
           \<and> gemini_text rt data = Inr (JStr reply) \<and> match_braces reply = Some block
           \<and> json_parse rt block = Inr parsed \<and> \<not> nullish parsed
           \<and> js_prop parsed ''result'' = JStr l \<longrightarrow>
         answers (gemini_processAudio rt gm buf (FetchResponse response))
           (js_or (js_prop parsed ''confidence'') (JNum 0.7)))
   \<and> ((\<exists>msg. gemini_processAudio rt gm buf fetched = failure_result msg)
        \<or> (\<exists>response data reply block parsed l. fetched = FetchResponse response
              \<and> ok response \<and> json_body response = Inr data
              \<and> gemini_text rt data = Inr (JStr reply) \<and> match_braces reply = Some block
              \<and> json_parse rt block = Inr parsed \<and> \<not> nullish parsed
              \<and> js_prop parsed ''result'' = JStr l
              \<and> answers (gemini_processAudio rt gm buf fetched)
                    (js_or (js_prop parsed ''confidence'') (JNum 0.7))))"
proof (intro conjI allI impI, goal_cases)
  case (1 e)
  show ?case by (rule hf_fail_fetch)
next
  case (2 response)
  then show ?case by (rule hf_fail_status)
next
  case (3 response e)
  then show ?case by (simp add: hf_fail_json)
next
  case (4 response data)
  then show ?case by (simp add: hf_fail_data)
next
  case (5 response data)
  then show ?case by (simp add: hf_fail_label_missing)
next
  case (6 response data)
  then show ?case by (simp add: hf_fail_label_type)
next
  case (7 response data l)
  then show ?case using hf_fail_convert [of response data l hf rt buf] by blast
next
  case (8 response data l)
  then show ?case using hf_answers [of response data l hf rt buf] by blast
next
  case (9 data)
  then show ?case by (simp add: hf_score_missing)
next
  case 10
  show ?case by (rule hf_failure_or_complete)
next
  case (11 e)
  show ?case by (rule gemini_fail_fetch)
next
  case (12 response errorText)
  then show ?case by (simp add: gemini_fail_status)
next
  case (13 response e)
  then show ?case by (simp add: gemini_fail_status_text)
next
  case (14 response e)
  then show ?case by (simp add: gemini_fail_json)
next
  case (15 response data)
  then show ?case by (simp add: gemini_fail_data)
next
  case (16 response data v)
  then show ?case using gemini_fail_reply_type [of response data rt v gm buf] by blast
next
  case (17 response data reply)
  then show ?case using gemini_fail_no_block [of response data rt reply gm buf] by blast
next
  case (18 response data reply block e)
  then show ?case using gemini_fail_parse [of response data rt reply block e gm buf] by blast
next
  case (19 response data reply block parsed)
  then show ?case
    using gemini_fail_parsed [of response data rt reply block parsed gm buf] by blast
next
  case (20 response data reply block parsed)
  then show ?case
    using gemini_fail_result_missing [of response data rt reply block parsed gm buf] by blast
next
  case (21 response data reply block parsed)
  then show ?case
    using gemini_fail_result_type [of response data rt reply block parsed gm buf] by blast
next
  case (22 response data reply block parsed l)
  then show ?case
    using gemini_complete [of response data rt reply block parsed l gm buf] by blast
next
  case 23
  show ?case by (rule gemini_failure_or_complete)
qed

text \<open>
  Instances: a 503 from either service, a page of markup where JSON was expected, a body
  with no label, a score that is an object with a \<open>toString\<close> of its own, a body with a
  label and no score, and a reply with no candidates.
\<close>

theorem processAudio_failures_witness:
  "hf_processAudio sample_engine new_HuggingFaceStrategy []
       (FetchResponse \<lparr>ok = False, status = 503, statusText = ''Service Unavailable'',
          text_body = Inr ''overloaded'', json_body = Inl (ErrorObj ''Unexpected token'')\<rparr>)
     = failure_result ''HuggingFace service error: Service Unavailable''
   \<and> gemini_processAudio sample_engine new_GeminiStrategy []
       (FetchResponse \<lparr>ok = False, status = 503, statusText = ''Service Unavailable'',
          text_body = Inr ''overloaded'', json_body = Inl (ErrorObj ''Unexpected token'')\<rparr>)
     = failure_result ''Gemini API error: 503 - overloaded''
   \<and> hf_processAudio sample_engine new_HuggingFaceStrategy []
       (FetchResponse \<lparr>ok = True, status = 200, statusText = ''OK'',
          text_body = Inr ''<html>'', json_body = Inl (ErrorObj ''Unexpected token'')\<rparr>)
     = failure_result ''Unexpected token''
   \<and> hf_processAudio sample_engine new_HuggingFaceStrategy []
       (FetchResponse \<lparr>ok = True, status = 200, statusText = ''OK'',
          text_body = Inr ''{}'', json_body = Inr (JObj [(''score'', JNum 0.9)])\<rparr>)
     = failure_result ''TypeError''
   \<and> hf_processAudio sample_engine new_HuggingFaceStrategy []
       (FetchResponse \<lparr>ok = True, status = 200, statusText = ''OK'', text_body = Inr ''{}'',
          json_body = Inr (JObj [(''label'', JStr ''machine''),
                                 (''score'', JObj [(''toString'', JNum 1)])])\<rparr>)
     = failure_result ''TypeError''
   \<and> answers (hf_processAudio sample_engine new_HuggingFaceStrategy []
       (FetchResponse \<lparr>ok = True, status = 200, statusText = ''OK'', text_body = Inr ''{}'',
          json_body = Inr (JObj [(''label'', JStr ''human'')])\<rparr>)) (JNum 0)
   \<and> gemini_processAudio sample_engine new_GeminiStrategy []
       (FetchResponse \<lparr>ok = True, status = 200, statusText = ''OK'',
          text_body = Inr ''{}'', json_body = Inr (JObj [])\<rparr>)
     = failure_result ''Failed to parse Gemini response''"
proof -
  note inst = processAudio_failures_are_results
    [of sample_engine new_HuggingFaceStrategy "[]" _ new_GeminiStrategy]
  have wording: "type_error_text sample_engine = (\<lambda>fault. ''TypeError'')"
    by (simp add: sample_engine_def)
  have no_text: "gemini_text sample_engine (JObj []) = Inr (JStr [])"
    by (simp add: gemini_text_missing)
  have score: "hf_score (JObj [(''label'', JStr ''machine''),
                               (''score'', JObj [(''toString'', JNum 1)])])
               = JObj [(''toString'', JNum 1)]"
    by (simp add: hf_score_def js_or_def)
  have cls: "names_class (toLowerCase ''machine'')" "\<not> names_class (toLowerCase ''noise'')"
    by (simp_all add: names_class_def toLowerCase_def lower_char_def)
  have s0: "hf_score (JObj [(''label'', JStr ''human'')]) = JNum 0"
    by (simp add: hf_score_def js_or_def)
  have thr: "confidenceThreshold new_HuggingFaceStrategy = JNum 0.7"
    by (simp add: new_HuggingFaceStrategy_def)
  note answered = inst [THEN conjunct2, THEN conjunct2, THEN conjunct2, THEN conjunct2,
    THEN conjunct2, THEN conjunct2, THEN conjunct2, THEN conjunct1, rule_format]
  have "answers (hf_processAudio sample_engine new_HuggingFaceStrategy []
       (FetchResponse \<lparr>ok = True, status = 200, statusText = ''OK'', text_body = Inr ''{}'',
          json_body = Inr (JObj [(''label'', JStr ''human'')])\<rparr>))
       (hf_score (JObj [(''label'', JStr ''human'')]))"
    by (rule answered [where l = "''human''"]) (simp add: nullish_def s0 thr)
  then have a: "answers (hf_processAudio sample_engine new_HuggingFaceStrategy []
       (FetchResponse \<lparr>ok = True, status = 200, statusText = ''OK'', text_body = Inr ''{}'',
          json_body = Inr (JObj [(''label'', JStr ''human'')])\<rparr>)) (JNum 0)"
    by (simp add: s0)
  show ?thesis
    using inst wording no_text score cls thr match_braces_empty a
    by (simp add: show_nat.simps digit_char_def nullish_def)
qed

text \<open>
  A body with a label and no score is not reported as a failure: the outcome is
  \<open>Undecided\<close>, not \<open>Unknown\<close>, and the metadata has no \<open>error\<close>.
\<close>

theorem missing_score_counterexample:
  "result (hf_processAudio sample_engine new_HuggingFaceStrategy []
      (FetchResponse \<lparr>ok = True, status = 200, statusText = ''OK'', text_body = Inr [],
         json_body = Inr (JObj [(''label'', JStr ''human'')])\<rparr>)) = Undecided
   \<and> confidence (hf_processAudio sample_engine new_HuggingFaceStrategy []
      (FetchResponse \<lparr>ok = True, status = 200, statusText = ''OK'', text_body = Inr [],
         json_body = Inr (JObj [(''label'', JStr ''human'')])\<rparr>)) = JNum 0
   \<and> map_of (metadata (hf_processAudio sample_engine new_HuggingFaceStrategy []
      (FetchResponse \<lparr>ok = True, status = 200, statusText = ''OK'', text_body = Inr [],
         json_body = Inr (JObj [(''label'', JStr ''human'')])\<rparr>))) ''error'' = None
   \<and> Undecided \<noteq> Unknown"
  by (simp add: hf_processAudio_def hf_try_def get_prop_def nullish_def js_or_def
      new_HuggingFaceStrategy_def toLowerCase_def lower_char_def Let_def)

subsection \<open>The decision rule of the Hugging Face adapter\<close>

text \<open>\<open>str_includes\<close> is containment of a substring.\<close>

lemma starts_with_iff: "starts_with s sub \<longleftrightarrow> (\<exists>q. s = sub @ q)"
  by (induction s sub rule: starts_with.induct) auto

lemma str_includes_iff: "str_includes s sub \<longleftrightarrow> (\<exists>p q. s = p @ sub @ q)"
proof (induction s)
  case Nil
  then show ?case by simp
next
  case (Cons c cs)
  show ?case
  proof
    assume "str_includes (c # cs) sub"
    then consider "starts_with (c # cs) sub" | "str_includes cs sub" by auto
    then show "\<exists>p q. c # cs = p @ sub @ q"
    proof cases
      case 1
      then obtain q where "c # cs = sub @ q" using starts_with_iff by blast
      then have "c # cs = [] @ sub @ q" by simp
      then show ?thesis by blast
    next
      case 2
      then obtain p q where "cs = p @ sub @ q" using Cons.IH by blast
      then have "c # cs = (c # p) @ sub @ q" by simp
      then show ?thesis by blast
    qed
  next
    assume "\<exists>p q. c # cs = p @ sub @ q"
    then obtain p q where pq: "c # cs = p @ sub @ q" by blast
    show "str_includes (c # cs) sub"
    proof (cases p)
      case Nil
      with pq have "starts_with (c # cs) sub" using starts_with_iff by auto
      then show ?thesis by simp
    next
      case (Cons d ds)
      with pq have "cs = ds @ sub @ q" by simp
      then have "str_includes cs sub" using Cons.IH by blast
      then show ?thesis by simp
    qed
  qed
qed

lemma hf_try_scored:
  assumes "ok response" and "json_body response = Inr (JObj kvs)"
    and "map_of kvs ''label'' = Some (JStr l)"
    and "(map_of kvs ''confidence'' = Some (JNum s) \<and> map_of kvs ''score'' = None)
         \<or> (map_of kvs ''confidence'' = None \<and> map_of kvs ''score'' = Some (JNum s))"
    and "confidenceThreshold this = JNum t"
  shows "hf_try rt this buf (FetchResponse response) =
     Inr \<lparr>result =
            (if str_includes (toLowerCase l) ''voicemail'' \<or> str_includes (toLowerCase l) ''machine''
             then (if t \<le> s then Machine else Undecided)
             else if str_includes (toLowerCase l) ''human'' \<or> str_includes (toLowerCase l) ''person''
             then (if t \<le> s then Human else Undecided)
             else Undecided),
          confidence = JNum s,
          metadata = [(''modelLabel'', JStr l), (''rawScore'', js_prop (JObj kvs) ''confidence''),
                      (''processingTime'', js_prop (JObj kvs) ''processingTime'')]\<rparr>"
proof -
  have conf: "hf_score (JObj kvs) = JNum s"
    using assms(4) by (auto simp: hf_score_def js_or_def)
  have obj: "\<not> nullish (JObj kvs)" by (simp add: nullish_def)
  have lab: "js_prop (JObj kvs) ''label'' = JStr l"
    using assms(3) by simp
  show ?thesis
    unfolding hf_try_labelled [OF assms(1,2) obj lab]
    using assms(5) conf by (simp add: names_class_def)
qed

lemma hf_initialize_threshold:
  "confidenceThreshold (fst (hf_initialize hf e cfg health)) =
     js_or (js_prop (JObj cfg) ''confidenceThreshold'') (JNum 0.7)"
  by (cases health) (simp_all add: hf_initialize_def Let_def)

text \<open>
  C2, as the code has it. Let the remote response be OK and carry a label \<open>l\<close> and a
  numeric score \<open>s\<close> (in the field \<open>confidence\<close> or in the field \<open>score\<close>). Let the
  instance be new, or initialised with a configuration \<open>cfg\<close>, and let \<open>t\<close> be 0.7 when
  the instance is new or \<open>cfg\<close> has no \<open>confidenceThreshold\<close>, and for a configured
  number \<open>c\<close> let \<open>t\<close> be \<open>c\<close> unless \<open>c\<close> is 0, in which case \<open>t\<close> is 0.7 too. The cases
  are read in order. If the lower-cased label contains \<open>voicemail\<close> or \<open>machine\<close>, the
  outcome is \<open>Machine\<close> when \<open>s \<ge> t\<close> and \<open>Undecided\<close> otherwise; else, if it contains
  \<open>human\<close> or \<open>person\<close>, the outcome is \<open>Human\<close> when \<open>s \<ge> t\<close> and \<open>Undecided\<close>
  otherwise; any other label gives \<open>Undecided\<close>. The confidence returned is \<open>s\<close>.
\<close>

theorem hf_decision_rule:
  assumes "ok response" and "json_body response = Inr (JObj kvs)"
    and "map_of kvs ''label'' = Some (JStr l)"
    and "(map_of kvs ''confidence'' = Some (JNum s) \<and> map_of kvs ''score'' = None)
         \<or> (map_of kvs ''confidence'' = None \<and> map_of kvs ''score'' = Some (JNum s))"
    and "(this = new_HuggingFaceStrategy \<and> t = 0.7)
         \<or> (this = fst (hf_initialize hf e cfg health)
             \<and> map_of cfg ''confidenceThreshold'' = None \<and> t = 0.7)
         \<or> (this = fst (hf_initialize hf e cfg health)
             \<and> map_of cfg ''confidenceThreshold'' = Some (JNum c)
             \<and> t = (if c = 0 then 0.7 else c))"
  shows "result (hf_processAudio rt this buf (FetchResponse response)) =
           (if str_includes (toLowerCase l) ''voicemail'' \<or> str_includes (toLowerCase l) ''machine''
            then (if t \<le> s then Machine else Undecided)
            else if str_includes (toLowerCase l) ''human'' \<or> str_includes (toLowerCase l) ''person''
            then (if t \<le> s then Human else Undecided)
            else Undecided)
         \<and> confidence (hf_processAudio rt this buf (FetchResponse response)) = JNum s"
proof -
  have "confidenceThreshold this = JNum t"
    using assms(5)
    by (auto simp: new_HuggingFaceStrategy_def hf_initialize_threshold js_or_def)
  from hf_try_scored [OF assms(1-4) this, of rt buf]
  show ?thesis by (simp add: hf_processAudio_def)
qed

text \<open>
  The label \<open>voicemail_detected\<close> against the default threshold 0.7: with score 0.92 the
  outcome is \<open>Machine\<close> with confidence 0.92, with score 0.5 it is \<open>Undecided\<close>. Against
  a configured threshold of 0.95 the score 0.92 gives \<open>Undecided\<close>.
\<close>

theorem hf_decision_rule_witness:
  "result (hf_processAudio sample_engine new_HuggingFaceStrategy []
      (FetchResponse \<lparr>ok = True, status = 200, statusText = ''OK'', text_body = Inr [],
         json_body = Inr (JObj [(''label'', JStr ''voicemail_detected''), (''score'', JNum 0.92)])\<rparr>))
     = Machine
   \<and> confidence (hf_processAudio sample_engine new_HuggingFaceStrategy []
      (FetchResponse \<lparr>ok = True, status = 200, statusText = ''OK'', text_body = Inr [],
         json_body = Inr (JObj [(''label'', JStr ''voicemail_detected''), (''score'', JNum 0.92)])\<rparr>))
     = JNum 0.92
   \<and> result (hf_processAudio sample_engine new_HuggingFaceStrategy []
      (FetchResponse \<lparr>ok = True, status = 200, statusText = ''OK'', text_body = Inr [],
         json_body = Inr (JObj [(''label'', JStr ''voicemail_detected''), (''score'', JNum 0.5)])\<rparr>))
     = Undecided
   \<and> result (hf_processAudio sample_engine
        (fst (hf_initialize new_HuggingFaceStrategy [] [(''confidenceThreshold'', JNum 0.95)]
                (FetchThrows (ErrorObj ''connect ECONNREFUSED'')))) []
      (FetchResponse \<lparr>ok = True, status = 200, statusText = ''OK'', text_body = Inr [],
         json_body = Inr (JObj [(''label'', JStr ''voicemail_detected''), (''score'', JNum 0.92)])\<rparr>))
     = Undecided"
  using
    hf_decision_rule [where response = "\<lparr>ok = True, status = 200, statusText = ''OK'',
         text_body = Inr [],
         json_body = Inr (JObj [(''label'', JStr ''voicemail_detected''), (''score'', JNum 0.92)])\<rparr>"
       and kvs = "[(''label'', JStr ''voicemail_detected''), (''score'', JNum 0.92)]"
       and l = "''voicemail_detected''" and s = "0.92" and this = new_HuggingFaceStrategy
       and t = "0.7" and rt = sample_engine and buf = "[]"]
    hf_decision_rule [where response = "\<lparr>ok = True, status = 200, statusText = ''OK'',
         text_body = Inr [],
         json_body = Inr (JObj [(''label'', JStr ''voicemail_detected''), (''score'', JNum 0.5)])\<rparr>"
       and kvs = "[(''label'', JStr ''voicemail_detected''), (''score'', JNum 0.5)]"
       and l = "''voicemail_detected''" and s = "0.5" and this = new_HuggingFaceStrategy
       and t = "0.7" and rt = sample_engine and buf = "[]"]
    hf_decision_rule [where response = "\<lparr>ok = True, status = 200, statusText = ''OK'',
         text_body = Inr [],
         json_body = Inr (JObj [(''label'', JStr ''voicemail_detected''), (''score'', JNum 0.92)])\<rparr>"
       and kvs = "[(''label'', JStr ''voicemail_detected''), (''score'', JNum 0.92)]"
       and l = "''voicemail_detected''" and s = "0.92"
       and this = "fst (hf_initialize new_HuggingFaceStrategy []
                          [(''confidenceThreshold'', JNum 0.95)]
                          (FetchThrows (ErrorObj ''connect ECONNREFUSED'')))"
       and hf = new_HuggingFaceStrategy and e = "[]"
       and cfg = "[(''confidenceThreshold'', JNum 0.95)]"
       and health = "FetchThrows (ErrorObj ''connect ECONNREFUSED'')"
       and c = "0.95" and t = "0.95" and rt = sample_engine and buf = "[]"]
  by (simp add: toLowerCase_def lower_char_def)

text \<open>
  A configured threshold of 0 is replaced by 0.7: the label \<open>machine\<close> with score 0.5,
  which is not below 0, gives \<open>Undecided\<close>.
\<close>

theorem configured_zero_threshold_counterexample:
  "map_of [(''confidenceThreshold'', JNum 0)] ''confidenceThreshold'' = Some (JNum 0)
   \<and> (0::real) \<le> 0.5
   \<and> result (hf_processAudio sample_engine
        (fst (hf_initialize new_HuggingFaceStrategy [] [(''confidenceThreshold'', JNum 0)]
                (FetchThrows (ErrorObj ''connect ECONNREFUSED'')))) []
      (FetchResponse \<lparr>ok = True, status = 200, statusText = ''OK'', text_body = Inr [],
         json_body = Inr (JObj [(''label'', JStr ''machine''), (''score'', JNum 0.5)])\<rparr>))
     = Undecided
   \<and> Undecided \<noteq> Machine"
  by (simp add: hf_processAudio_def hf_try_def get_prop_def nullish_def js_or_def
      hf_initialize_def toLowerCase_def lower_char_def Let_def)

subsection \<open>The event tables\<close>

lemma unconvertible_truthy: "unconvertible v \<Longrightarrow> truthy v"
  by (cases v) simp_all

lemma unconvertible_start: "unconvertible (js_or v (JNum n)) = unconvertible v"
  using unconvertible_truthy [of v] by (auto simp: js_or_def)

lemma js_minus_from_number:
  "js_minus rt (JNum a) v =
     (if unconvertible v then Inl (type_error rt (CannotConvert v))
      else Inr (case (case v of JNum x \<Rightarrow> Some x | _ \<Rightarrow> to_number rt v) of
                  Some q \<Rightarrow> Some (a - q) | None \<Rightarrow> None))"
  by (cases v) (simp_all add: js_minus_def js_to_number_def)

lemma jambonz_outcome:
  "\<not> nullish payload \<Longrightarrow> \<not> unconvertible (js_prop payload ''timestamp'') \<Longrightarrow>
   outcome (jambonz_parseWebhookEvent rt now0 now1 payload) =
     Some (if js_prop payload ''event'' = JStr ''amd_human_detected'' then (Human, JNum 0.85)
           else if js_prop payload ''event'' = JStr ''amd_machine_detected'' then (Machine, JNum 0.88)
           else if js_prop payload ''event'' = JStr ''amd_decision_timeout'' then (Undecided, JNum 0.5)
           else if js_prop payload ''event'' = JStr ''amd_tone_detected'' then (Fax, JNum 0.9)
           else (Unknown, JNum 0.75))"
  by (simp add: outcome_def jambonz_parseWebhookEvent_def Let_def js_minus_from_number
      unconvertible_start)

lemma twilio_outcome:
  "\<not> nullish payload \<Longrightarrow> \<not> unconvertible (js_prop payload ''timestamp'') \<Longrightarrow>
   outcome (twilio_parseWebhookResult rt now0 now1 payload) =
     Some (let amdStatus = js_or (js_prop payload ''AnsweredBy'')
                                 (js_prop payload ''AnsweringMachineDetection'')
           in if amdStatus = JStr ''human'' then (Human, JNum 0.8)
              else if amdStatus \<in> {JStr ''machine_start'', JStr ''machine_end_beep'',
                                   JStr ''machine_end_silence'', JStr ''machine_end_other''}
              then (Machine, JNum 0.85)
              else if amdStatus = JStr ''fax'' then (Fax, JNum 0.9)
              else (Undecided, JNum 0.5))"
  by (simp add: outcome_def twilio_parseWebhookResult_def Let_def js_minus_from_number
      unconvertible_start)

lemma parse_throws_timestamp:
  "\<not> nullish payload \<Longrightarrow> unconvertible (js_prop payload ''timestamp'') \<Longrightarrow>
   jambonz_parseWebhookEvent rt now0 now1 payload =
     Inl (type_error rt (CannotConvert (js_prop payload ''timestamp'')))
   \<and> twilio_parseWebhookResult rt now0 now1 payload =
     Inl (type_error rt (CannotConvert (js_prop payload ''timestamp'')))"
  using unconvertible_truthy [of "js_prop payload ''timestamp''"]
  by (simp add: jambonz_parseWebhookEvent_def twilio_parseWebhookResult_def Let_def
      js_minus_from_number unconvertible_start js_or_def split: prod.splits)

lemma parse_throws_payload:
  "nullish payload \<Longrightarrow>
   jambonz_parseWebhookEvent rt now0 now1 payload =
     Inl (type_error rt (ReadProperty payload ''timestamp''))
   \<and> twilio_parseWebhookResult rt now0 now1 payload =
     Inl (type_error rt (ReadProperty payload ''timestamp''))"
  by (simp add: jambonz_parseWebhookEvent_def twilio_parseWebhookResult_def)

text \<open>
  C3, as the code has it. Let the payload be neither \<^verbatim>\<open>null\<close> nor \<^verbatim>\<open>undefined\<close> and let
  its \<open>timestamp\<close>, if it has one, be convertible to a number. Then the Jambonz adapter
  maps \<open>amd_human_detected\<close> to \<open>Human\<close> with 0.85, \<open>amd_machine_detected\<close> to \<open>Machine\<close>
  with 0.88, \<open>amd_decision_timeout\<close> to \<open>Undecided\<close> with 0.5, \<open>amd_tone_detected\<close> to
  \<open>Fax\<close> with 0.9 and any other event to \<open>Unknown\<close> with 0.75; and the Twilio adapter
  maps the status \<open>human\<close> to \<open>Human\<close> with 0.8, the four \<open>machine_\<close> statuses to
  \<open>Machine\<close> with 0.85, \<open>fax\<close> to \<open>Fax\<close> with 0.9, and any other status to \<open>Undecided\<close>
  with 0.5. On a payload whose \<open>timestamp\<close> cannot be converted both adapters throw the
  \<^verbatim>\<open>TypeError\<close> of the subtraction, and on \<^verbatim>\<open>null\<close> or \<^verbatim>\<open>undefined\<close> the one of the
  first read.
\<close>

theorem event_tables:
  "(\<not> nullish payload \<and> \<not> unconvertible (js_prop payload ''timestamp'') \<longrightarrow>
      outcome (jambonz_parseWebhookEvent rt now0 now1 payload) =
        Some (if js_prop payload ''event'' = JStr ''amd_human_detected'' then (Human, JNum 0.85)
              else if js_prop payload ''event'' = JStr ''amd_machine_detected''
              then (Machine, JNum 0.88)
              else if js_prop payload ''event'' = JStr ''amd_decision_timeout''
              then (Undecided, JNum 0.5)
              else if js_prop payload ''event'' = JStr ''amd_tone_detected'' then (Fax, JNum 0.9)
              else (Unknown, JNum 0.75))
      \<and> outcome (twilio_parseWebhookResult rt now0 now1 payload) =
        Some (let amdStatus = js_or (js_prop payload ''AnsweredBy'')
                                    (js_prop payload ''AnsweringMachineDetection'')
              in if amdStatus = JStr ''human'' then (Human, JNum 0.8)
                 else if amdStatus \<in> {JStr ''machine_start'', JStr ''machine_end_beep'',
                                      JStr ''machine_end_silence'', JStr ''machine_end_other''}
                 then (Machine, JNum 0.85)
                 else if amdStatus = JStr ''fax'' then (Fax, JNum 0.9)
                 else (Undecided, JNum 0.5)))
   \<and> (\<not> nullish payload \<and> unconvertible (js_prop payload ''timestamp'') \<longrightarrow>
        jambonz_parseWebhookEvent rt now0 now1 payload =
          Inl (type_error rt (CannotConvert (js_prop payload ''timestamp'')))
        \<and> twilio_parseWebhookResult rt now0 now1 payload =
          Inl (type_error rt (CannotConvert (js_prop payload ''timestamp''))))
   \<and> (nullish payload \<longrightarrow>
        jambonz_parseWebhookEvent rt now0 now1 payload =
          Inl (type_error rt (ReadProperty payload ''timestamp''))
        \<and> twilio_parseWebhookResult rt now0 now1 payload =
          Inl (type_error rt (ReadProperty payload ''timestamp'')))"
  using jambonz_outcome [of payload rt now0 now1] twilio_outcome [of payload rt now0 now1]
    parse_throws_timestamp [of payload rt now0 now1] parse_throws_payload [of payload rt now0 now1]
  by blast

text \<open>
  A payload that both adapters read as a machine; a payload whose \<open>timestamp\<close> has a
  \<open>toString\<close> of its own; and the payload \<^verbatim>\<open>null\<close>.
\<close>

theorem event_tables_witness:
  "outcome (jambonz_parseWebhookEvent sample_engine 1700000000500 1700000000900
        (JObj [(''event'', JStr ''amd_machine_detected''), (''AnsweredBy'', JStr ''machine_end_beep''),
               (''timestamp'', JNum 1700000000000)]))
      = Some (Machine, JNum 0.88)
   \<and> outcome (twilio_parseWebhookResult sample_engine 1700000000500 1700000000900
        (JObj [(''event'', JStr ''amd_machine_detected''), (''AnsweredBy'', JStr ''machine_end_beep''),
               (''timestamp'', JNum 1700000000000)]))
      = Some (Machine, JNum 0.85)
   \<and> twilio_parseWebhookResult sample_engine 1700000000500 1700000000900
        (JObj [(''AnsweredBy'', JStr ''human''),
               (''timestamp'', JObj [(''valueOf'', JNum 1), (''toString'', JNum 2)])])
      = Inl (ErrorObj ''TypeError'')
   \<and> jambonz_parseWebhookEvent sample_engine 1700000000500 1700000000900 JNull
      = Inl (ErrorObj ''TypeError'')"
  using
    event_tables [of "JObj [(''event'', JStr ''amd_machine_detected''),
                            (''AnsweredBy'', JStr ''machine_end_beep''),
                            (''timestamp'', JNum 1700000000000)]"
                     sample_engine 1700000000500 1700000000900]
    event_tables [of "JObj [(''AnsweredBy'', JStr ''human''),
                            (''timestamp'', JObj [(''valueOf'', JNum 1), (''toString'', JNum 2)])]"
                     sample_engine 1700000000500 1700000000900]
    event_tables [of JNull sample_engine 1700000000500 1700000000900]
  by (simp add: nullish_def js_or_def type_error_def sample_engine_def)

text \<open>
  A status the Twilio adapter does not recognise gives \<open>Undecided\<close>, not \<open>Unknown\<close>.
\<close>

theorem twilio_unrecognized_status_counterexample:
  "\<exists>r. twilio_parseWebhookResult sample_engine 1700000000500 1700000000900
          (JObj [(''AnsweredBy'', JStr ''carrier_intercept'')]) = Inr r
       \<and> result r = Undecided \<and> result r \<noteq> Unknown \<and> confidence r = JNum 0.5"
  by (simp add: twilio_parseWebhookResult_def nullish_def js_or_def js_minus_def
      js_to_number_def)

subsection \<open>The range of the confidence\<close>

text \<open>
  C4 fails on the code: the confidence of the remote response is returned as it came. A
  Hugging Face response with confidence 1.5, and a Gemini reply whose block says 7, give
  results whose confidence is outside the interval from 0 to 1.
\<close>

theorem confidence_out_of_range:
  "confidence (hf_processAudio rt new_HuggingFaceStrategy buf
      (FetchResponse \<lparr>ok = True, status = 200, statusText = ''OK'', text_body = Inr [],
         json_body = Inr (JObj [(''label'', JStr ''human''), (''confidence'', JNum 1.5)])\<rparr>))
     = JNum 1.5
   \<and> \<not> in_unit_interval (JNum 1.5)
   \<and> confidence (gemini_processAudio
        (rt\<lparr>json_parse := (\<lambda>s. Inr (JObj [(''result'', JStr ''human''),
                                               (''confidence'', JNum 7)]))\<rparr>)
        new_GeminiStrategy buf
      (FetchResponse \<lparr>ok = True, status = 200, statusText = ''OK'', text_body = Inr [],
         json_body = Inr (JObj [(''candidates'', JArr [JObj [(''content'',
           JObj [(''parts'', JArr [JObj [(''text'',
              JStr ''{\"result\": \"human\", \"confidence\": 7}'')]])])]])])\<rparr>))
     = JNum 7
   \<and> \<not> in_unit_interval (JNum 7)"
  by (simp add: hf_processAudio_def hf_try_def get_prop_def nullish_def js_or_def
      gemini_processAudio_def gemini_try_def gemini_text_def opt_prop_def match_braces_def
      js_match_def js_toLowerCase_def toLowerCase_def lower_char_def Let_def
      new_HuggingFaceStrategy_def in_unit_interval_def)

subsection \<open>Audio handed to an event-driven adapter\<close>

text \<open>
  C5. On every audio buffer, \<^verbatim>\<open>processAudio\<close> of the Twilio adapter and of the Jambonz
  adapter throws: the call ends in an exception, an \<^verbatim>\<open>Error\<close> object that says audio is
  not this adapter's entry point, and returns no detection result, so nothing turns the
  error into an \<open>Unknown\<close> result.
\<close>

theorem event_adapters_reject_audio:
  "twilio_processAudio audioBuffer =
     Inl (ErrorObj ''Twilio Native AMD processes via webhooks, not direct audio processing'')
   \<and> jambonz_processAudio audioBuffer =
     Inl (ErrorObj ''Jambonz AMD processes via SIP webhooks, not direct audio processing'')
   \<and> (\<forall>r. twilio_processAudio audioBuffer \<noteq> Inr r)
   \<and> (\<forall>r. jambonz_processAudio audioBuffer \<noteq> Inr r)"
  by (simp add: twilio_processAudio_def jambonz_processAudio_def)

subsection \<open>The factory\<close>

text \<open>
  C9. \<^verbatim>\<open>createAmdStrategy\<close> returns a new instance of the adapter of each of the four
  registered types, and on any other type it throws the error \<open>Unknown AMD strategy\<close>
  naming the type, and returns no instance.
\<close>

theorem createAmdStrategy_registry:
  "createAmdStrategy ''twilio_native'' = Inr (TwilioNativeStrategy new_TwilioNativeStrategy)
   \<and> createAmdStrategy ''jambonz'' = Inr (JambonzStrategy new_JambonzStrategy)
   \<and> createAmdStrategy ''huggingface'' = Inr (HuggingFaceStrategy new_HuggingFaceStrategy)
   \<and> createAmdStrategy ''gemini'' = Inr (GeminiStrategy new_GeminiStrategy)
   \<and> (type \<notin> {''twilio_native'', ''jambonz'', ''huggingface'', ''gemini''} \<longrightarrow>
        createAmdStrategy type = Inl (ErrorObj (''Unknown AMD strategy: '' @ type))
        \<and> (\<forall>instance. createAmdStrategy type \<noteq> Inr instance))"
  by (simp add: createAmdStrategy_def)

text \<open>The type \<open>twilio\<close> is not registered.\<close>

theorem createAmdStrategy_registry_witness:
  "''twilio'' \<notin> {''twilio_native'', ''jambonz'', ''huggingface'', ''gemini''}
   \<and> createAmdStrategy ''twilio'' = Inl (ErrorObj ''Unknown AMD strategy: twilio'')"
  using createAmdStrategy_registry [of "''twilio''"] by simp

subsection \<open>The default confidence of the Gemini adapter\<close>

text \<open>
  C10. When the reply of the remote model holds a block that parses and whose \<open>result\<close> is
  text, and the \<open>confidence\<close> of the block is falsy (missing, 0, the empty string, false or
  null), the result of \<^verbatim>\<open>processAudio\<close> has confidence 0.7.
\<close>

theorem gemini_falsy_confidence_default:
  assumes "ok response" and "json_body response = Inr data"
    and "gemini_text rt data = Inr (JStr reply)" and "match_braces reply = Some block"
    and "json_parse rt block = Inr parsed"
    and "get_prop rt parsed ''result'' = Inr (JStr label)"
    and "\<not> truthy (js_prop parsed ''confidence'')"
  shows "confidence (gemini_processAudio rt this buf (FetchResponse response)) = JNum 0.7"
  using assms
  by (simp add: gemini_processAudio_def gemini_try_def js_or_def Let_def)

text \<open>A reply that says \<open>machine\<close> with confidence 0.\<close>

theorem gemini_falsy_confidence_default_witness:
  "confidence (gemini_processAudio
        (sample_engine\<lparr>json_parse :=
           (\<lambda>s. Inr (JObj [(''result'', JStr ''machine''), (''confidence'', JNum 0)]))\<rparr>)
        new_GeminiStrategy []
      (FetchResponse \<lparr>ok = True, status = 200, statusText = ''OK'', text_body = Inr [],
         json_body = Inr (JObj [(''candidates'', JArr [JObj [(''content'',
           JObj [(''parts'', JArr [JObj [(''text'',
              JStr ''{\"result\": \"machine\", \"confidence\": 0}'')]])])]])])\<rparr>))
     = JNum 0.7"
proof -
  let ?rt = "sample_engine\<lparr>json_parse :=
           (\<lambda>s. Inr (JObj [(''result'', JStr ''machine''), (''confidence'', JNum 0)]))\<rparr>"
  let ?data = "JObj [(''candidates'', JArr [JObj [(''content'',
           JObj [(''parts'', JArr [JObj [(''text'',
              JStr ''{\"result\": \"machine\", \"confidence\": 0}'')]])])]])]"
  let ?parsed = "JObj [(''result'', JStr ''machine''), (''confidence'', JNum 0)]"
  have 1: "gemini_text ?rt ?data = Inr (JStr ''{\"result\": \"machine\", \"confidence\": 0}'')"
    by (simp add: gemini_text_def get_prop_def nullish_def opt_prop_def js_or_def)
  have 2: "match_braces ''{\"result\": \"machine\", \"confidence\": 0}''
             = Some ''{\"result\": \"machine\", \"confidence\": 0}''"
    by (simp add: match_braces_def)
  have 3: "json_parse ?rt ''{\"result\": \"machine\", \"confidence\": 0}'' = Inr ?parsed"
    by simp
  have 4: "get_prop ?rt ?parsed ''result'' = Inr (JStr ''machine'')"
    by (simp add: get_prop_def nullish_def)
  have 5: "\<not> truthy (js_prop ?parsed ''confidence'')" by simp
  show ?thesis
    using gemini_falsy_confidence_default
      [of "\<lparr>ok = True, status = 200, statusText = ''OK'', text_body = Inr [],
             json_body = Inr ?data\<rparr>" ?data ?rt, OF _ _ 1 2 3 4 5]
    by simp
qed

subsection \<open>Initialisation\<close>

lemma hf_initialize_no_throw: "snd (snd (hf_initialize hf e cfg health)) = None"
  by (cases health) (simp_all add: hf_initialize_def Let_def)

lemma hf_initialize_warns_fetch:
  "fst (snd (hf_initialize hf e cfg (FetchThrows err))) =
     [(''HuggingFace service health check failed:'', err)]"
  by (simp add: hf_initialize_def Let_def)

lemma hf_initialize_warns_status:
  "\<not> ok response \<Longrightarrow>
   fst (snd (hf_initialize hf e cfg (FetchResponse response))) =
     [(''HuggingFace service health check failed:'',
       ErrorObj ''HuggingFace service not responding'')]"
  by (simp add: hf_initialize_def Let_def)

lemma hf_initialize_default_url:
  "map_of e ''HF_SERVICE_URL'' = None \<Longrightarrow> map_of cfg ''serviceUrl'' = None \<Longrightarrow>
   serviceUrl (fst (hf_initialize hf e cfg health)) = JStr ''http://localhost:8000''"
  by (cases health) (simp_all add: hf_initialize_def Let_def env_var_def js_or_def)

lemma gemini_initialize_throws:
  "snd (gemini_initialize gm e cfg) =
     (if truthy (env_var e ''GEMINI_API_KEY'') \<or> truthy (js_prop (JObj cfg) ''apiKey'')
      then None else Some (ErrorObj ''Gemini API key not configured''))"
  by (simp add: gemini_initialize_def Let_def js_or_def)

lemma jambonz_initialize_throws:
  "snd (jambonz_initialize jb e cfg) =
     (if truthy (env_var e ''JAMBONZ_URL'') \<or> truthy (js_prop (JObj cfg) ''jambonzUrl'')
      then None else Some (ErrorObj ''Jambonz URL not configured''))"
  by (simp add: jambonz_initialize_def Let_def js_or_def)

text \<open>
  C8, as the code has it. \<^verbatim>\<open>initialize\<close> of the Hugging Face adapter never throws: a
  health check that fails (the fetch throws, or the response is not OK) is one call of
  \<^verbatim>\<open>console.warn\<close>; with no service URL in the environment or the configuration the
  instance uses \<open>http://localhost:8000\<close>. \<^verbatim>\<open>initialize\<close> of the Twilio adapter never
  throws. The Gemini adapter throws \<open>Gemini API key not configured\<close> exactly when neither
  the environment variable \<open>GEMINI_API_KEY\<close> nor the key \<open>apiKey\<close> of the configuration
  holds a truthy value, and the Jambonz adapter throws \<open>Jambonz URL not configured\<close>
  exactly when neither \<open>JAMBONZ_URL\<close> nor \<open>jambonzUrl\<close> does. A key that is present with
  an empty value counts as not configured, and the environment can stand in for the key.
\<close>

theorem initialize_raises_iff:
  "snd (snd (hf_initialize hf e cfg health)) = None
   \<and> (\<forall>err. health = FetchThrows err \<longrightarrow>
         fst (snd (hf_initialize hf e cfg health)) =
           [(''HuggingFace service health check failed:'', err)])
   \<and> (\<forall>response. health = FetchResponse response \<and> \<not> ok response \<longrightarrow>
         fst (snd (hf_initialize hf e cfg health)) =
           [(''HuggingFace service health check failed:'',
             ErrorObj ''HuggingFace service not responding'')])
   \<and> (map_of e ''HF_SERVICE_URL'' = None \<and> map_of cfg ''serviceUrl'' = None \<longrightarrow>
         serviceUrl (fst (hf_initialize hf e cfg health)) = JStr ''http://localhost:8000'')
   \<and> snd (twilio_initialize tw e cfg) = None
   \<and> snd (gemini_initialize gm e cfg) =
        (if truthy (env_var e ''GEMINI_API_KEY'') \<or> truthy (js_prop (JObj cfg) ''apiKey'')
         then None else Some (ErrorObj ''Gemini API key not configured''))
   \<and> snd (jambonz_initialize jb e cfg) =
        (if truthy (env_var e ''JAMBONZ_URL'') \<or> truthy (js_prop (JObj cfg) ''jambonzUrl'')
         then None else Some (ErrorObj ''Jambonz URL not configured''))"
proof (intro conjI allI impI, goal_cases)
  case 1
  show ?case by (rule hf_initialize_no_throw)
next
  case (2 err)
  then show ?case by (simp add: hf_initialize_warns_fetch)
next
  case (3 response)
  then show ?case by (simp add: hf_initialize_warns_status)
next
  case 4
  then show ?case by (simp add: hf_initialize_default_url)
next
  case 5
  show ?case by (simp add: twilio_initialize_def)
next
  case 6
  show ?case by (rule gemini_initialize_throws)
next
  case 7
  show ?case by (rule jambonz_initialize_throws)
qed

text \<open>
  An empty environment and an empty configuration, with a health check that cannot connect.
\<close>

theorem initialize_raises_iff_witness:
  "snd (snd (hf_initialize new_HuggingFaceStrategy [] []
          (FetchThrows (ErrorObj ''connect ECONNREFUSED'')))) = None
   \<and> fst (snd (hf_initialize new_HuggingFaceStrategy [] []
          (FetchThrows (ErrorObj ''connect ECONNREFUSED'')))) =
        [(''HuggingFace service health check failed:'', ErrorObj ''connect ECONNREFUSED'')]
   \<and> serviceUrl (fst (hf_initialize new_HuggingFaceStrategy [] []
          (FetchThrows (ErrorObj ''connect ECONNREFUSED'')))) = JStr ''http://localhost:8000''
   \<and> snd (gemini_initialize new_GeminiStrategy [] []) =
        Some (ErrorObj ''Gemini API key not configured'')
   \<and> snd (jambonz_initialize new_JambonzStrategy [] []) =
        Some (ErrorObj ''Jambonz URL not configured'')"
  using initialize_raises_iff
    [of new_HuggingFaceStrategy "[]" "[]" "FetchThrows (ErrorObj ''connect ECONNREFUSED'')"
        new_TwilioNativeStrategy new_GeminiStrategy new_JambonzStrategy]
  by (simp add: env_var_def)

text \<open>
  The presence of the key does not decide: an \<open>apiKey\<close> that is present and empty makes
  the Gemini adapter throw, and the Jambonz adapter accepts a configuration without
  \<open>jambonzUrl\<close> when the environment has the URL.
\<close>

theorem initialize_present_but_empty_counterexample:
  "map_of [(''apiKey'', JStr [])] ''apiKey'' \<noteq> None
   \<and> snd (gemini_initialize new_GeminiStrategy [] [(''apiKey'', JStr [])])
       = Some (ErrorObj ''Gemini API key not configured'')
   \<and> map_of ([] :: config) ''jambonzUrl'' = None
   \<and> snd (jambonz_initialize new_JambonzStrategy [(''JAMBONZ_URL'', ''https://sip.example'')] [])
       = None"
  by (simp add: gemini_initialize_throws jambonz_initialize_throws env_var_def)

subsection \<open>Streaming\<close>

lemma window_below_ceiling: "n < 48000 * 2 \<Longrightarrow> \<not> maxBufferSize < (n::nat)"
  by (simp add: maxBufferSize_def)

lemma loop_stream_ends:
  "totalSize + length (concat cs) < 48000 * 2 \<Longrightarrow>
   handleStream_loop pa chunks totalSize (map Chunk cs) = ([], Inr (Broke (chunks @ cs)))"
proof (induction cs arbitrary: chunks totalSize)
  case Nil
  then show ?case by simp
next
  case (Cons c cs)
  then have small: "totalSize + length c < 48000 * 2" by simp
  have "handleStream_loop pa chunks totalSize (map Chunk (c # cs)) =
        handleStream_loop pa (chunks @ [c]) (totalSize + length c) (map Chunk cs)"
    using small window_below_ceiling [OF small] by (simp add: Let_def)
  also have "\<dots> = ([], Inr (Broke ((chunks @ [c]) @ cs)))"
    using Cons.prems by (intro Cons.IH) simp
  finally show ?case by simp
qed

lemma loop_read_throws:
  "totalSize + length (concat cs) < 48000 * 2 \<Longrightarrow>
   handleStream_loop pa chunks totalSize (map Chunk cs @ ReadThrows e # rest) = ([], Inl e)"
proof (induction cs arbitrary: chunks totalSize)
  case Nil
  then show ?case by simp
next
  case (Cons c cs)
  then have small: "totalSize + length c < 48000 * 2" by simp
  have "handleStream_loop pa chunks totalSize (map Chunk (c # cs) @ ReadThrows e # rest) =
        handleStream_loop pa (chunks @ [c]) (totalSize + length c)
          (map Chunk cs @ ReadThrows e # rest)"
    using small window_below_ceiling [OF small] by (simp add: Let_def)
  also have "\<dots> = ([], Inl e)"
    using Cons.prems by (intro Cons.IH) simp
  finally show ?case .
qed

lemma loop_window:
  "totalSize < 48000 * 2 \<Longrightarrow> 48000 * 2 \<le> totalSize + length (concat cs) \<Longrightarrow>
   \<exists>k. 0 < k \<and> k \<le> length cs
     \<and> 48000 * 2 \<le> totalSize + length (concat (take k cs))
     \<and> totalSize + length (concat (take (k - 1) cs)) < 48000 * 2
     \<and> handleStream_loop pa chunks totalSize (map Chunk cs @ rest) =
         ([concat (chunks @ take k cs)], Inr (Returned (pa (concat (chunks @ take k cs)))))"
proof (induction cs arbitrary: chunks totalSize)
  case Nil
  then show ?case by simp
next
  case (Cons c cs)
  show ?case
  proof (cases "48000 * 2 \<le> totalSize + length c")
    case True
    then have "handleStream_loop pa chunks totalSize (map Chunk (c # cs) @ rest) =
        ([concat (chunks @ take 1 (c # cs))],
         Inr (Returned (pa (concat (chunks @ take 1 (c # cs))))))"
      by (simp add: Let_def)
    moreover have "48000 * 2 \<le> totalSize + length (concat (take 1 (c # cs)))"
      using True by simp
    moreover have "totalSize + length (concat (take (1 - 1) (c # cs))) < 48000 * 2"
      using Cons.prems(1) by simp
    ultimately show ?thesis
      by (intro exI [of _ 1]) simp
  next
    case False
    then have small: "totalSize + length c < 48000 * 2" by simp
    have step: "handleStream_loop pa chunks totalSize (map Chunk (c # cs) @ rest) =
        handleStream_loop pa (chunks @ [c]) (totalSize + length c) (map Chunk cs @ rest)"
      using small window_below_ceiling [OF small] by (simp add: Let_def)
    have "48000 * 2 \<le> (totalSize + length c) + length (concat cs)"
      using Cons.prems(2) by simp
    from Cons.IH [OF small this, of "chunks @ [c]"]
    obtain k where k: "0 < k" "k \<le> length cs"
      "48000 * 2 \<le> (totalSize + length c) + length (concat (take k cs))"
      "(totalSize + length c) + length (concat (take (k - 1) cs)) < 48000 * 2"
      "handleStream_loop pa (chunks @ [c]) (totalSize + length c) (map Chunk cs @ rest) =
         ([concat ((chunks @ [c]) @ take k cs)],
          Inr (Returned (pa (concat ((chunks @ [c]) @ take k cs)))))"
      by blast
    from k(1) obtain k' where k': "k = Suc k'" by (cases k) auto
    have "0 < Suc k \<and> Suc k \<le> length (c # cs)
      \<and> 48000 * 2 \<le> totalSize + length (concat (take (Suc k) (c # cs)))
      \<and> totalSize + length (concat (take (Suc k - 1) (c # cs))) < 48000 * 2
      \<and> handleStream_loop pa chunks totalSize (map Chunk (c # cs) @ rest) =
         ([concat (chunks @ take (Suc k) (c # cs))],
          Inr (Returned (pa (concat (chunks @ take (Suc k) (c # cs))))))"
      using k step unfolding k' by simp
    then show ?thesis by blast
  qed
qed

lemma concat_take_mono:
  "j \<le> m \<Longrightarrow> length (concat (take j cs)) \<le> length (concat (take m cs))"
proof -
  assume "j \<le> m"
  then have "take m cs = take j cs @ take (m - j) (drop j cs)"
    by (metis le_add_diff_inverse take_add)
  then show ?thesis by simp
qed

lemma concat_take_le: "length (concat (take j cs)) \<le> length (concat cs)"
  using concat_take_mono [of j "length cs" cs] by (cases "j \<le> length cs") simp_all

lemma handleStream_window:
  assumes "48000 * 2 \<le> length (concat cs)"
  shows "\<exists>k. 0 < k \<and> k \<le> length cs
     \<and> 48000 * 2 \<le> length (concat (take k cs))
     \<and> length (concat (take (k - 1) cs)) < 48000 * 2
     \<and> handleStream pa (map Chunk cs @ rest) =
         ([concat (take k cs)], Inr (pa (concat (take k cs))))"
proof -
  from loop_window [of 0 cs pa "[]" rest] assms
  obtain k where k: "0 < k" "k \<le> length cs" "48000 * 2 \<le> length (concat (take k cs))"
    "length (concat (take (k - 1) cs)) < 48000 * 2"
    "handleStream_loop pa [] 0 (map Chunk cs @ rest) =
       ([concat (take k cs)], Inr (Returned (pa (concat (take k cs)))))"
    by auto
  from k(5) have "handleStream pa (map Chunk cs @ rest) =
      ([concat (take k cs)], Inr (pa (concat (take k cs))))"
    by (simp add: handleStream_def)
  with k(1-4) show ?thesis by blast
qed

lemma handleStream_stream_ends:
  assumes "length (concat cs) < 48000 * 2"
  shows "handleStream pa (map Chunk cs) = ([concat cs], Inr (pa (concat cs)))"
  using loop_stream_ends [of 0 cs pa "[]"] assms by (simp add: handleStream_def)

lemma handleStream_ceiling:
  assumes "maxBufferSize < length (concat (take j cs))"
  shows "\<exists>k\<le>j. handleStream pa (map Chunk cs @ rest) =
           ([concat (take k cs)], Inr (pa (concat (take k cs))))"
proof -
  have big: "48000 * 2 \<le> length (concat (take j cs))"
    using assms by (simp add: maxBufferSize_def)
  then have "48000 * 2 \<le> length (concat cs)"
    using concat_take_le [of j cs] by linarith
  from handleStream_window [OF this, of pa rest]
  obtain k where k: "length (concat (take (k - 1) cs)) < 48000 * 2"
    "handleStream pa (map Chunk cs @ rest) = ([concat (take k cs)], Inr (pa (concat (take k cs))))"
    by blast
  have "k \<le> j"
  proof (rule ccontr)
    assume "\<not> k \<le> j"
    then have "j \<le> k - 1" by simp
    from concat_take_mono [OF this, of cs] k(1) big show False by linarith
  qed
  with k(2) show ?thesis by blast
qed

lemma handleStream_read_throws:
  assumes "length (concat cs) < 48000 * 2"
  shows "handleStream pa (map Chunk cs @ ReadThrows e # rest) = ([], Inl e)"
  using loop_read_throws [of 0 cs pa "[]" e rest] assms by (simp add: handleStream_def)

lemma loop_exits:
  "(\<exists>e. handleStream_loop pa chunks totalSize stream = ([], Inl e) \<and> ReadThrows e \<in> set stream)
   \<or> (\<exists>b. handleStream_loop pa chunks totalSize stream = ([b], Inr (Returned (pa b))))
   \<or> (\<exists>bs. handleStream_loop pa chunks totalSize stream = ([], Inr (Broke bs)))"
proof (induction pa chunks totalSize stream rule: handleStream_loop.induct)
  case (1 processAudio chunks totalSize)
  then show ?case by simp
next
  case (2 processAudio chunks totalSize e rest)
  then show ?case by simp
next
  case (3 processAudio chunks totalSize v rest)
  show ?case
  proof (cases "48000 * 2 \<le> totalSize + length v")
    case True
    then show ?thesis by (simp add: Let_def)
  next
    case False
    note small = this
    show ?thesis
    proof (cases "maxBufferSize < totalSize + length v")
      case True
      with small show ?thesis by (simp add: Let_def)
    next
      case False
      with small have step: "handleStream_loop processAudio chunks totalSize (Chunk v # rest) =
          handleStream_loop processAudio (chunks @ [v]) (totalSize + length v) rest"
        by (simp add: Let_def)
      from 3 [OF refl refl small False] show ?thesis
        unfolding step by auto
    qed
  qed
qed

lemma handleStream_exits:
  "(\<exists>e. handleStream pa stream = ([], Inl e) \<and> ReadThrows e \<in> set stream)
   \<or> (\<exists>b. handleStream pa stream = ([b], Inr (pa b)))"
  using loop_exits [of pa "[]" 0 stream]
  by (auto simp: handleStream_def)

text \<open>
  C6. Let \<open>hs\<close> be \<^verbatim>\<open>handleStream\<close> of the Hugging Face adapter or of the Gemini adapter
  and \<open>pa\<close> its \<^verbatim>\<open>processAudio\<close>, and let the stream deliver the chunks \<open>cs\<close>. If the
  chunks sum to at least 96000 bytes, there is exactly one call of \<open>pa\<close>, on the
  concatenation of the first \<open>k\<close> chunks, where chunk \<open>k\<close> is the first at which the sum
  reaches 96000; what the stream holds after that is not read. If the stream ends below
  96000 bytes, there is exactly one call, on the concatenation of all chunks. If the first
  \<open>j\<close> chunks sum to more than 5 MiB, the call is made at chunk \<open>j\<close> or earlier.
\<close>

theorem handleStream_detects_once:
  assumes "(hs, pa) = (hf_handleStream rt hf remote, \<lambda>b. hf_processAudio rt hf b (remote b))
         \<or> (hs, pa) = (gemini_handleStream rg gm remote, \<lambda>b. gemini_processAudio rg gm b (remote b))"
  shows "(96000 \<le> length (concat cs) \<longrightarrow>
            (\<exists>k. 0 < k \<and> k \<le> length cs
               \<and> 96000 \<le> length (concat (take k cs))
               \<and> length (concat (take (k - 1) cs)) < 96000
               \<and> hs (map Chunk cs @ rest) =
                    ([concat (take k cs)], Inr (pa (concat (take k cs))))))
       \<and> (length (concat cs) < 96000 \<longrightarrow>
            hs (map Chunk cs) = ([concat cs], Inr (pa (concat cs))))
       \<and> (maxBufferSize < length (concat (take j cs)) \<longrightarrow>
            (\<exists>k\<le>j. hs (map Chunk cs @ rest) =
                      ([concat (take k cs)], Inr (pa (concat (take k cs))))))"
proof -
  have hs: "hs = handleStream pa"
    using assms by (auto simp: hf_handleStream_def [abs_def] gemini_handleStream_def [abs_def])
  show ?thesis
    unfolding hs
    using handleStream_window [of cs pa rest] handleStream_stream_ends [of cs pa]
      handleStream_ceiling [of j cs pa rest]
    by simp
qed

text \<open>
  Two chunks of three bytes in all; a first chunk of 96000 bytes followed by another; and
  a first chunk of 6000000 bytes, more than 5 MiB.
\<close>

theorem handleStream_detects_once_witness:
  "length (concat [ [1, 2], [3::8 word] ]) < 96000
   \<and> hf_handleStream sample_engine new_HuggingFaceStrategy
        (\<lambda>b. FetchThrows (ErrorObj ''fetch failed'')) (map Chunk [ [1, 2], [3] ])
      = ([ [1, 2, 3] ],
         Inr (hf_processAudio sample_engine new_HuggingFaceStrategy [1, 2, 3]
                (FetchThrows (ErrorObj ''fetch failed''))))
   \<and> 96000 \<le> length (concat [replicate 96000 (0::8 word), [1]])
   \<and> (\<exists>k. 0 < k \<and> k \<le> length [replicate 96000 (0::8 word), [1]]
         \<and> hf_handleStream sample_engine new_HuggingFaceStrategy
              (\<lambda>b. FetchThrows (ErrorObj ''fetch failed''))
              (map Chunk [replicate 96000 (0::8 word), [1]] @ [])
            = ([concat (take k [replicate 96000 (0::8 word), [1]])],
               Inr (hf_processAudio sample_engine new_HuggingFaceStrategy
                      (concat (take k [replicate 96000 (0::8 word), [1]]))
                      (FetchThrows (ErrorObj ''fetch failed'')))))
   \<and> maxBufferSize < length (concat (take 1 [replicate 6000000 (0::8 word), [1]]))
   \<and> (\<exists>k. k \<le> 1
         \<and> hf_handleStream sample_engine new_HuggingFaceStrategy
              (\<lambda>b. FetchThrows (ErrorObj ''fetch failed''))
              (map Chunk [replicate 6000000 (0::8 word), [1]] @ [])
            = ([concat (take k [replicate 6000000 (0::8 word), [1]])],
               Inr (hf_processAudio sample_engine new_HuggingFaceStrategy
                      (concat (take k [replicate 6000000 (0::8 word), [1]]))
                      (FetchThrows (ErrorObj ''fetch failed'')))))"
proof -
  note inst = handleStream_detects_once
    [of "hf_handleStream sample_engine new_HuggingFaceStrategy
           (\<lambda>b. FetchThrows (ErrorObj ''fetch failed''))"
        "\<lambda>b. hf_processAudio sample_engine new_HuggingFaceStrategy b
           (FetchThrows (ErrorObj ''fetch failed''))"
        sample_engine new_HuggingFaceStrategy "\<lambda>b. FetchThrows (ErrorObj ''fetch failed'')"]
  have short: "length (concat [ [1, 2], [3::8 word] ]) < 96000" by simp
  have long: "96000 \<le> length (concat [replicate 96000 (0::8 word), [1]])" by simp
  have over: "maxBufferSize < length (concat (take 1 [replicate 6000000 (0::8 word), [1]]))"
    by (simp add: maxBufferSize_def)
  from inst [of _ _ "[ [1, 2], [3] ]"] short
  have 1: "hf_handleStream sample_engine new_HuggingFaceStrategy
        (\<lambda>b. FetchThrows (ErrorObj ''fetch failed'')) (map Chunk [ [1, 2], [3] ])
      = ([ [1, 2, 3] ],
         Inr (hf_processAudio sample_engine new_HuggingFaceStrategy [1, 2, 3]
                (FetchThrows (ErrorObj ''fetch failed''))))"
    by simp
  from inst [of _ _ "[replicate 96000 0, [1]]" "[]"] long
  have 2: "\<exists>k. 0 < k \<and> k \<le> length [replicate 96000 (0::8 word), [1]]
         \<and> hf_handleStream sample_engine new_HuggingFaceStrategy
              (\<lambda>b. FetchThrows (ErrorObj ''fetch failed''))
              (map Chunk [replicate 96000 (0::8 word), [1]] @ [])
            = ([concat (take k [replicate 96000 (0::8 word), [1]])],
               Inr (hf_processAudio sample_engine new_HuggingFaceStrategy
                      (concat (take k [replicate 96000 (0::8 word), [1]]))
                      (FetchThrows (ErrorObj ''fetch failed''))))"
    by blast
  from inst [of _ _ "[replicate 6000000 0, [1]]" "[]" 1] over
  have 3: "\<exists>k. k \<le> 1
         \<and> hf_handleStream sample_engine new_HuggingFaceStrategy
              (\<lambda>b. FetchThrows (ErrorObj ''fetch failed''))
              (map Chunk [replicate 6000000 (0::8 word), [1]] @ [])
            = ([concat (take k [replicate 6000000 (0::8 word), [1]])],
               Inr (hf_processAudio sample_engine new_HuggingFaceStrategy
                      (concat (take k [replicate 6000000 (0::8 word), [1]]))
                      (FetchThrows (ErrorObj ''fetch failed''))))"
    by blast
  from short 1 long 2 over 3 show ?thesis by blast
qed

text \<open>
  C7, as the code has it. An error thrown by a read before 96000 bytes have arrived
  leaves \<^verbatim>\<open>handleStream\<close> as a throw of that same error, with no call of
  \<^verbatim>\<open>processAudio\<close>. Every run of \<^verbatim>\<open>handleStream\<close> ends either so, or with the result
  of exactly one call of \<^verbatim>\<open>processAudio\<close>; and when the remote call of that
  \<^verbatim>\<open>processAudio\<close> fails, its result is \<open>Unknown\<close> with confidence 0 and the error
  text in the metadata.
\<close>

theorem handleStream_failures:
  assumes "(hs, pa) = (hf_handleStream rt hf remote, \<lambda>b. hf_processAudio rt hf b (remote b))
         \<or> (hs, pa) = (gemini_handleStream rg gm remote, \<lambda>b. gemini_processAudio rg gm b (remote b))"
  shows "(length (concat cs) < 96000 \<longrightarrow>
            hs (map Chunk cs @ ReadThrows e # rest) = ([], Inl e))
       \<and> ((\<exists>err. hs stream = ([], Inl err) \<and> ReadThrows err \<in> set stream)
            \<or> (\<exists>b. hs stream = ([b], Inr (pa b))))
       \<and> (remote b = FetchThrows err \<longrightarrow> pa b = failure_result (error_message err))"
proof -
  have hs: "hs = handleStream pa"
    using assms by (auto simp: hf_handleStream_def [abs_def] gemini_handleStream_def [abs_def])
  have pa: "remote b = FetchThrows err \<Longrightarrow> pa b = failure_result (error_message err)"
    using assms hf_fail_fetch [of rt hf b err] gemini_fail_fetch [of rg gm b err] by auto
  show ?thesis
    unfolding hs
    using handleStream_read_throws [of cs pa e rest] handleStream_exits [of pa stream] pa
    by simp
qed

text \<open>A stream that breaks after its first two bytes.\<close>

theorem handleStream_failures_witness:
  "length (concat [ [1, 2::8 word] ]) < 96000
   \<and> gemini_handleStream sample_engine new_GeminiStrategy
       (\<lambda>b. FetchThrows (ErrorObj ''fetch failed''))
       (map Chunk [ [1, 2] ] @ ReadThrows (ErrorObj ''stream reset'') # [])
     = ([], Inl (ErrorObj ''stream reset''))
   \<and> gemini_processAudio sample_engine new_GeminiStrategy [1, 2]
       (FetchThrows (ErrorObj ''fetch failed''))
     = failure_result ''fetch failed''"
  using handleStream_failures
    [of "gemini_handleStream sample_engine new_GeminiStrategy
           (\<lambda>b. FetchThrows (ErrorObj ''fetch failed''))"
        "\<lambda>b. gemini_processAudio sample_engine new_GeminiStrategy b
           (FetchThrows (ErrorObj ''fetch failed''))"
        _ _ "\<lambda>b. FetchThrows (ErrorObj ''fetch failed'')"
        sample_engine new_GeminiStrategy
        "[ [1, 2] ]" "ErrorObj ''stream reset''" "[]" _ "[1, 2]" "ErrorObj ''fetch failed''"]
  by simp

text \<open>
  The error of a failed read is not turned into a result: both adapters throw it to the
  caller.
\<close>

theorem handleStream_read_error_counterexample:
  "hf_handleStream sample_engine new_HuggingFaceStrategy (\<lambda>b. FetchThrows (ErrorObj ''fetch failed''))
     [Chunk [1, 2], ReadThrows (ErrorObj ''stream reset'')]
     = ([], Inl (ErrorObj ''stream reset''))
   \<and> gemini_handleStream sample_engine new_GeminiStrategy
       (\<lambda>b. FetchThrows (ErrorObj ''fetch failed''))
     [Chunk [1, 2], ReadThrows (ErrorObj ''stream reset'')]
     = ([], Inl (ErrorObj ''stream reset''))"
  by (simp add: hf_handleStream_def gemini_handleStream_def handleStream_def Let_def
      maxBufferSize_def)

end
